theory Spec2Isabelle
  imports Complex_Main "HOL-Library.Word"
begin

section \<open>The Mantle faucet: a model of \<^verbatim>\<open>main.go\<close>\<close>

text \<open>
  The service has one handler, \<^verbatim>\<open>handleWithdraw\<close>, serving \<^verbatim>\<open>POST /mantle/request\<close>.
  It validates the target address, consults the in-memory map \<^verbatim>\<open>accounts\<close> for the
  cooldown, converts the amount to wei, and then talks to the chain: dial, balance, nonce,
  fees, chain id, gas estimation, signing, broadcast. Only after a successful broadcast does
  it write the map.

  The handler is modelled as a function of the configuration globals, of the map, of the
  bound request and of a record \<open>World\<close> holding what each library or chain call answers for
  this request. It returns what the handler wrote to the client, the map afterwards, and
  the sequence of calls it made. Every \<^verbatim>\<open>return\<close> of the source is one branch of the model,
  and a nil-pointer dereference of the source is the outcome \<open>Panic\<close>.
\<close>

subsection \<open>Numbers: \<^verbatim>\<open>float64\<close>, \<^verbatim>\<open>big.Float\<close> at precision 53\<close>

text \<open>
  A \<^verbatim>\<open>float64\<close> is a rational (a finite value; the sign of zero is not kept, no step of
  the handler observes it), an infinity with its sign bit, or a NaN.
\<close>

datatype float64 = Finite rat | Inf bool | NaN

text \<open>Number of binary digits of a positive integer; 0 for the others.\<close>

function bit_length :: "int \<Rightarrow> int" where
  "bit_length n = (if n \<le> 0 then 0 else 1 + bit_length (n div 2))"
  by pat_completeness auto
termination
  by (relation "measure nat") auto

declare bit_length.simps [simp del]

definition pow2 :: "int \<Rightarrow> rat" where
  "pow2 e = (if 0 \<le> e then 2 ^ nat e else 1 / 2 ^ nat (- e))"

definition pow10 :: "int \<Rightarrow> rat" where
  "pow10 e = (if 0 \<le> e then 10 ^ nat e else 1 / 10 ^ nat (- e))"

text \<open>The binary exponent of a positive rational \<open>q\<close>: the \<open>e\<close> with \<open>2^e \<le> q < 2^(e+1)\<close>.\<close>

definition floor_log2 :: "rat \<Rightarrow> int" where
  "floor_log2 q =
     (if 1 \<le> q then bit_length \<lfloor>q\<rfloor> - 1 else - bit_length (\<lceil>1 / q\<rceil> - 1))"

text \<open>Rounding to the nearest integer, ties to the even one (IEEE 754 default).\<close>

definition round_half_even :: "rat \<Rightarrow> int" where
  "round_half_even q =
     (let n = \<lfloor>q\<rfloor>; r = q - of_int n
      in if r < 1 / 2 then n
         else if 1 / 2 < r then n + 1
         else if even n then n else n + 1)"

text \<open>Rounding a non-negative rational to a multiple of \<open>2^e\<close>.\<close>

definition round_to_quantum :: "int \<Rightarrow> rat \<Rightarrow> rat" where
  "round_to_quantum e q = of_int (round_half_even (q / pow2 e)) * pow2 e"

text \<open>
  \<^verbatim>\<open>big.Float\<close> rounding at precision 53, mode \<^verbatim>\<open>ToNearestEven\<close>: 53 significant bits, the
  exponent unbounded.
\<close>

definition round_prec53 :: "rat \<Rightarrow> rat" where
  "round_prec53 q =
     (if q = 0 then 0
      else sgn q * round_to_quantum (floor_log2 \<bar>q\<bar> - 52) \<bar>q\<bar>)"

text \<open>
  Rounding to \<^verbatim>\<open>float64\<close>: 53 significant bits down to the exponent \<open>-1022\<close>, multiples
  of \<open>2^-1074\<close> below (subnormals), and no value from \<open>2^1024\<close> on (\<open>None\<close>).
\<close>

definition round_float64 :: "rat \<Rightarrow> rat option" where
  "round_float64 q =
     (if q = 0 then Some 0
      else let r = round_to_quantum (max (floor_log2 \<bar>q\<bar>) (- 1022) - 52) \<bar>q\<bar>
           in if pow2 1024 \<le> r then None else Some (sgn q * r))"

text \<open>Truncation towards zero.\<close>

definition trunc_rat :: "rat \<Rightarrow> int" where
  "trunc_rat q = (if 0 \<le> q then \<lfloor>q\<rfloor> else \<lceil>q\<rceil>)"

subsection \<open>\<^verbatim>\<open>strconv.ParseFloat(s, 64)\<close>\<close>

text \<open>
  The standard library's parser, for the plain decimal syntax: an optional sign, decimal
  digits with an optional point (at least one digit), an optional exponent \<^verbatim>\<open>e\<close> or \<^verbatim>\<open>E\<close> with
  an optional sign and at least one digit. The value is the nearest \<^verbatim>\<open>float64\<close>, ties to
  even; a value too large is the error \<^verbatim>\<open>ErrRange\<close>. While reading the exponent the library
  stops accumulating digits once the exponent has reached 10000.

  Before that the library looks for the special words, in any mix of upper and lower
  case: \<^verbatim>\<open>inf\<close> and \<^verbatim>\<open>infinity\<close>, with an optional sign, are the infinities, and \<^verbatim>\<open>nan\<close>,
  without a sign, is a NaN; none of them is an error.

  The library accepts two more forms: hexadecimal mantissas (\<^verbatim>\<open>0x1p-2\<close>) and underscores
  between digits. What it answers on a string that is neither a special word nor in the
  plain decimal syntax is the parameter \<open>other\<close>.
\<close>

datatype NumError = ErrSyntax | ErrRange

definition is_digit :: "char \<Rightarrow> bool" where
  "is_digit c = (c \<in> set ''0123456789'')"

definition digit_val :: "char \<Rightarrow> int" where
  "digit_val c = of_char c - 48"

definition digits_val :: "string \<Rightarrow> int" where
  "digits_val ds = foldl (\<lambda>acc c. 10 * acc + digit_val c) 0 ds"

definition exp_digits_val :: "string \<Rightarrow> int" where
  "exp_digits_val ds = foldl (\<lambda>e c. if e < 10000 then e * 10 + digit_val c else e) 0 ds"

definition split_sign :: "string \<Rightarrow> bool \<times> string" where
  "split_sign s =
     (case s of
        [] \<Rightarrow> (False, [])
      | c # r \<Rightarrow> if c = CHR ''+'' then (False, r)
                 else if c = CHR ''-'' then (True, r)
                 else (False, s))"

definition parse_exponent :: "string \<Rightarrow> int option" where
  "parse_exponent s =
     (case s of
        [] \<Rightarrow> Some 0
      | c # r \<Rightarrow>
          if c = CHR ''e'' \<or> c = CHR ''E'' then
            (let (neg, ds) = split_sign r
             in if ds \<noteq> [] \<and> list_all is_digit ds
                then Some ((if neg then - 1 else 1) * exp_digits_val ds)
                else None)
          else None)"

definition parse_decimal :: "string \<Rightarrow> rat option" where
  "parse_decimal s =
     (let (neg, r) = split_sign s;
          ip = takeWhile is_digit r;
          r1 = dropWhile is_digit r;
          (fp, r2) = (case r1 of
                        [] \<Rightarrow> ([], [])
                      | c # t \<Rightarrow> if c = CHR ''.''
                                 then (takeWhile is_digit t, dropWhile is_digit t)
                                 else ([], r1))
      in if ip = [] \<and> fp = [] then None
         else case parse_exponent r2 of
                None \<Rightarrow> None
              | Some e \<Rightarrow>
                  Some ((if neg then - 1 else 1) * of_int (digits_val (ip @ fp))
                        * pow10 (e - int (length fp))))"

text \<open>
  \<open>ci_match s lower upper\<close>: the string is the word, letter by letter, each letter in
  either case.
\<close>

fun ci_match :: "string \<Rightarrow> string \<Rightarrow> string \<Rightarrow> bool" where
  "ci_match [] [] [] = True"
| "ci_match (c # s) (l # ls) (u # us) = ((c = l \<or> c = u) \<and> ci_match s ls us)"
| "ci_match s ls us = False"

definition special :: "string \<Rightarrow> float64 option" where
  "special s =
     (let (neg, r) = split_sign s
      in if ci_match r ''inf'' ''INF'' \<or> ci_match r ''infinity'' ''INFINITY''
         then Some (Inf neg)
         else if ci_match s ''nan'' ''NAN'' then Some NaN
         else None)"

definition ParseFloat :: "(string \<Rightarrow> NumError + float64) \<Rightarrow> string \<Rightarrow> NumError + float64" where
  "ParseFloat other s =
     (case special s of
        Some f \<Rightarrow> Inr f
      | None \<Rightarrow>
     (case parse_decimal s of
        Some q \<Rightarrow> (case round_float64 q of
                     Some x \<Rightarrow> Inr (Finite x)
                   | None \<Rightarrow> Inl ErrRange)
      | None \<Rightarrow> other s))"

subsection \<open>\<^verbatim>\<open>math/big\<close>: the three calls of the amount conversion\<close>

text \<open>
  A \<^verbatim>\<open>big.Float\<close> is finite or infinite. \<^verbatim>\<open>big.NewFloat\<close> panics on a NaN and gives
  precision 53. \<^verbatim>\<open>Mul\<close> rounds the product to the precision of its receiver and panics on
  zero times infinity. \<^verbatim>\<open>Int\<close> truncates towards zero into the integer it is given, and
  leaves that integer alone (returning nil) when the value is infinite. \<open>None\<close> is the panic.
\<close>

datatype big_Float = BigFinite rat | BigInf bool

definition NewFloat :: "float64 \<Rightarrow> big_Float option" where
  "NewFloat x =
     (case x of
        Finite q \<Rightarrow> Some (BigFinite q)
      | Inf neg \<Rightarrow> Some (BigInf neg)
      | NaN \<Rightarrow> None)"

definition Float_Mul :: "big_Float \<Rightarrow> big_Float \<Rightarrow> big_Float option" where
  "Float_Mul x y =
     (case (x, y) of
        (BigFinite a, BigFinite b) \<Rightarrow> Some (BigFinite (round_prec53 (a * b)))
      | (BigFinite a, BigInf n) \<Rightarrow> if a = 0 then None else Some (BigInf (n \<noteq> (a < 0)))
      | (BigInf n, BigFinite b) \<Rightarrow> if b = 0 then None else Some (BigInf (n \<noteq> (b < 0)))
      | (BigInf n, BigInf m) \<Rightarrow> Some (BigInf (n \<noteq> m)))"

definition Float_Int :: "big_Float \<Rightarrow> int \<Rightarrow> int" where
  "Float_Int x z = (case x of BigFinite q \<Rightarrow> trunc_rat q | BigInf neg \<Rightarrow> z)"

text \<open>
  Lines 103 to 111 of \<^verbatim>\<open>handleWithdraw\<close>: the amount string to an integer number of wei.
  The constant \<^verbatim>\<open>1e18\<close> is a \<^verbatim>\<open>float64\<close> that holds \<open>10^18\<close> exactly.
\<close>

datatype amount_result = ParseFailed NumError | AmountPanic | IntAmount int

definition amount_to_wei :: "(string \<Rightarrow> NumError + float64) \<Rightarrow> string \<Rightarrow> amount_result" where
  "amount_to_wei other s =
     (case ParseFloat other s of
        Inl err \<Rightarrow> ParseFailed err
      | Inr amountFloat64 \<Rightarrow>
          (case NewFloat amountFloat64 of
             None \<Rightarrow> AmountPanic
           | Some amount \<Rightarrow>
               (case Float_Mul amount (BigFinite (10 ^ 18)) of
                  None \<Rightarrow> AmountPanic
                | Some amount' \<Rightarrow> IntAmount (Float_Int amount' 0))))"

subsection \<open>\<^verbatim>\<open>go-ethereum/common\<close>: addresses and hashes\<close>

type_synonym common_Address = "160 word"
type_synonym common_Hash = "256 word"

definition has0xPrefix :: "string \<Rightarrow> bool" where
  "has0xPrefix str =
     (2 \<le> length str \<and> str ! 0 = CHR ''0'' \<and> (str ! 1 = CHR ''x'' \<or> str ! 1 = CHR ''X''))"

definition isHexCharacter :: "char \<Rightarrow> bool" where
  "isHexCharacter c = (c \<in> set ''0123456789abcdefABCDEF'')"

definition isHex :: "string \<Rightarrow> bool" where
  "isHex str = (even (length str) \<and> list_all isHexCharacter str)"

definition IsHexAddress :: "string \<Rightarrow> bool" where
  "IsHexAddress s =
     (let s' = (if has0xPrefix s then drop 2 s else s)
      in length s' = 40 \<and> isHex s')"

definition hex_val :: "char \<Rightarrow> nat" where
  "hex_val c =
     (if is_digit c then of_char c - 48
      else if c \<in> set ''abcdef'' then of_char c - 87
      else of_char c - 55)"

text \<open>
  \<^verbatim>\<open>hex.DecodeString\<close> with its error dropped, as \<^verbatim>\<open>common.Hex2Bytes\<close> does: the digit pairs
  decoded before the first invalid one.
\<close>

fun decoded_pairs :: "string \<Rightarrow> string" where
  "decoded_pairs (a # b # r) =
     (if isHexCharacter a \<and> isHexCharacter b then a # b # decoded_pairs r else [])"
| "decoded_pairs r = []"

text \<open>
  \<^verbatim>\<open>common.HexToAddress\<close>: the prefix is dropped, an odd number of digits gets a leading
  zero, and of more than twenty bytes the last twenty are kept.
\<close>

definition HexToAddress :: "string \<Rightarrow> common_Address" where
  "HexToAddress s =
     (let s1 = (if has0xPrefix s then drop 2 s else s);
          s2 = (if odd (length s1) then CHR ''0'' # s1 else s1)
      in word_of_nat (foldl (\<lambda>acc c. 16 * acc + hex_val c) 0 (decoded_pairs s2)))"

definition hex_digit :: "nat \<Rightarrow> char" where
  "hex_digit d = ''0123456789abcdef'' ! d"

text \<open>\<^verbatim>\<open>common.Hash.Hex\<close>: \<^verbatim>\<open>0x\<close> and the 64 lower-case digits of the 32 bytes.\<close>

definition Hash_Hex :: "common_Hash \<Rightarrow> string" where
  "Hash_Hex h = ''0x'' @ map (\<lambda>i. hex_digit (unat h div 16 ^ (63 - i) mod 16)) [0..<64]"

subsection \<open>\<^verbatim>\<open>time\<close>\<close>

text \<open>
  An instant is a number of nanoseconds on the process clock. A \<^verbatim>\<open>time.Duration\<close> is an
  \<^verbatim>\<open>int64\<close> of nanoseconds: products wrap, and the difference of two instants saturates
  at the least and the greatest \<^verbatim>\<open>int64\<close>, as \<^verbatim>\<open>Time.Sub\<close> documents.
\<close>

type_synonym Time = int
type_synonym Duration = "64 word"

definition Hour :: Duration where
  "Hour = 3600000000000"

definition Sub :: "Time \<Rightarrow> Time \<Rightarrow> Duration" where
  "Sub t u =
     (let d = t - u
      in if 2 ^ 63 \<le> d then word_of_int (2 ^ 63 - 1)
         else if d < - (2 ^ 63) then word_of_int (- (2 ^ 63))
         else word_of_int d)"

subsection \<open>The data of \<^verbatim>\<open>main.go\<close>\<close>

record Account =
  Address :: string
  LastWithdrawTime :: Time

record RequestBody =
  Network :: string
  Address :: string
  Amount :: string

text \<open>
  The globals set by \<^verbatim>\<open>initConfig\<close>. \<^verbatim>\<open>integerDefault\<close> is a Go \<^verbatim>\<open>int\<close>, 64 bits wide.
\<close>

record Config =
  integerDefault :: "64 word"
  privateKeyDefault :: string
  explorerUrlDefault :: string

text \<open>
  What \<^verbatim>\<open>c.JSON\<close> is called with: a status and an \<^verbatim>\<open>ApiResponse\<close> (\<^verbatim>\<open>Success\<close>, \<^verbatim>\<open>Message\<close>; the
  handler never sets \<^verbatim>\<open>Data\<close>), or the \<^verbatim>\<open>gin.H\<close> of the success path (\<^verbatim>\<open>success\<close>, \<^verbatim>\<open>tx_id\<close>,
  \<^verbatim>\<open>explorer_url\<close>).
\<close>

datatype Body = ApiResponse bool string | H bool string string

text \<open>
  How the handler ends: it called \<^verbatim>\<open>c.JSON\<close>, or it returned without writing anything,
  or it panicked.
\<close>

datatype Outcome = JSON nat Body | NoResponse | Panic

text \<open>
  \<^verbatim>\<open>ethereum.CallMsg\<close> with the fields the handler sets, in the order \<^verbatim>\<open>From\<close>, \<^verbatim>\<open>To\<close>,
  \<^verbatim>\<open>GasFeeCap\<close>, \<^verbatim>\<open>GasTipCap\<close>, \<^verbatim>\<open>Value\<close>, \<^verbatim>\<open>Data\<close>; \<^verbatim>\<open>types.DynamicFeeTx\<close> in the order
  \<^verbatim>\<open>ChainID\<close>, \<^verbatim>\<open>Nonce\<close>, \<^verbatim>\<open>GasFeeCap\<close>, \<^verbatim>\<open>GasTipCap\<close>, \<^verbatim>\<open>Gas\<close>, \<^verbatim>\<open>To\<close>, \<^verbatim>\<open>Value\<close>, \<^verbatim>\<open>Data\<close>. A signed
  transaction is the transaction and its hash.
\<close>

datatype CallMsg = CallMsg common_Address common_Address int int int "8 word list"

datatype DynamicFeeTx =
  DynamicFeeTx int "64 word" int int "64 word" common_Address int "8 word list"

datatype Transaction = Transaction DynamicFeeTx common_Hash

fun Hash :: "Transaction \<Rightarrow> common_Hash" where
  "Hash (Transaction tx h) = h"

type_synonym PrivateKey = nat
type_synonym PublicKey = nat

text \<open>The calls the handler makes, in the order it makes them.\<close>

datatype Event =
    Println NumError
  | LogError string
  | CallDialContext string
  | CallClose
  | CallBalanceAt common_Address
  | CallPendingNonceAt common_Address
  | CallSuggestGasPrice
  | CallSuggestGasTipCap
  | CallNetworkID
  | CallEstimateGas CallMsg
  | CallSignTx DynamicFeeTx
  | CallSendTransaction "Transaction option"

text \<open>
  What the libraries and the chain endpoint answer during one request. An error is its
  message. \<open>BalanceAt\<close> answers as the Go call does, with a pointer that may be nil and an
  error that may be nil. \<open>Public\<close> is \<^verbatim>\<open>privateKey.Public()\<close> followed by the checked type
  assertion to \<^verbatim>\<open>*ecdsa.PublicKey\<close>. \<open>Since_Now\<close> is the clock read by \<^verbatim>\<open>time.Since\<close>,
  \<open>Record_Now\<close> the clock read by the \<^verbatim>\<open>time.Now()\<close> of line 250.
\<close>

record World =
  ParseFloat_other :: "string \<Rightarrow> NumError + float64"
  Since_Now :: Time
  Record_Now :: Time
  DialContext :: "string \<Rightarrow> string option"
  HexToECDSA :: "string \<Rightarrow> string + PrivateKey"
  Public :: "PrivateKey \<Rightarrow> PublicKey option"
  PubkeyToAddress :: "PublicKey \<Rightarrow> common_Address"
  BalanceAt :: "common_Address \<Rightarrow> int option \<times> string option"
  PendingNonceAt :: "common_Address \<Rightarrow> string + 64 word"
  SuggestGasPrice :: "string + int"
  SuggestGasTipCap :: "string + int"
  NetworkID :: "string + int"
  EstimateGas :: "CallMsg \<Rightarrow> string + 64 word"
  SignTx :: "DynamicFeeTx \<Rightarrow> int \<Rightarrow> PrivateKey \<Rightarrow> string + Transaction"
  SendTransaction :: "Transaction \<Rightarrow> string option"

record HandlerResult =
  outcome :: Outcome
  ledger :: "string \<rightharpoonup> Account"
  trace :: "Event list"

subsection \<open>\<^verbatim>\<open>handleWithdraw\<close>\<close>

text \<open>A \<^verbatim>\<open>return\<close> that leaves the map as it is.\<close>

definition stop :: "(string \<rightharpoonup> Account) \<Rightarrow> Event list \<Rightarrow> Outcome \<Rightarrow> HandlerResult" where
  "stop accounts evs out = \<lparr>outcome = out, ledger = accounts, trace = evs\<rparr>"

text \<open>The calls made so far, in front of those of the rest of the handler.\<close>

definition after :: "Event list \<Rightarrow> HandlerResult \<Rightarrow> HandlerResult" where
  "after evs r = r\<lparr>trace := evs @ trace r\<rparr>"

text \<open>\<^verbatim>\<open>logger.Error(msg, ...)\<close> followed by \<^verbatim>\<open>c.JSON(status, ApiResponse{false, msg})\<close>.\<close>

definition fail :: "(string \<rightharpoonup> Account) \<Rightarrow> nat \<Rightarrow> string \<Rightarrow> HandlerResult" where
  "fail accounts status msg = stop accounts [LogError msg] (JSON status (ApiResponse False msg))"

text \<open>Line 92: \<^verbatim>\<open>time.Duration(integerDefault) * time.Hour\<close>.\<close>

definition cooldown_duration :: "Config \<Rightarrow> Duration" where
  "cooldown_duration cfg = integerDefault cfg * Hour"

text \<open>
  Lines 89 to 100: the address has a record and the time since it is less than the
  cooldown.
\<close>

definition in_cooldown :: "Config \<Rightarrow> World \<Rightarrow> (string \<rightharpoonup> Account) \<Rightarrow> string \<Rightarrow> bool" where
  "in_cooldown cfg w accounts addr =
     (case accounts addr of
        None \<Rightarrow> False
      | Some account_user \<Rightarrow>
          sint (Sub (Since_Now w) (LastWithdrawTime account_user)) < sint (cooldown_duration cfg))"

text \<open>
  Lines 124 to 257, between the successful dial and the deferred \<^verbatim>\<open>client.Close()\<close>.
  \<^verbatim>\<open>common.HexToAddress(fromAddress.String())\<close> is \<^verbatim>\<open>fromAddress\<close> again. The error of
  \<^verbatim>\<open>BalanceAt\<close> is dropped and \<^verbatim>\<open>balance.Cmp\<close> dereferences the pointer. The error of
  \<^verbatim>\<open>types.SignTx\<close> is overwritten by the next line, which hands the transaction (nil when
  signing failed) to \<^verbatim>\<open>SendTransaction\<close>; the client serialises it first, which
  dereferences it.
\<close>

definition withdraw_connected ::
  "Config \<Rightarrow> World \<Rightarrow> (string \<rightharpoonup> Account) \<Rightarrow> RequestBody \<Rightarrow> int \<Rightarrow> HandlerResult" where
  "withdraw_connected cfg w accounts req intAmount =
     (case HexToECDSA w (privateKeyDefault cfg) of
        Inl err \<Rightarrow> fail accounts 500 ''Failed to decode private key''
      | Inr privateKey \<Rightarrow>
     (case Public w privateKey of
        None \<Rightarrow> fail accounts 500 ''Failed to decode private key''
      | Some publicKeyECDSA \<Rightarrow>
     (let fromAddress = PubkeyToAddress w publicKeyECDSA;
          account = fromAddress
      in after [CallBalanceAt account]
     (case fst (BalanceAt w account) of
        None \<Rightarrow> stop accounts [] Panic
      | Some balance \<Rightarrow>
     if balance < intAmount then fail accounts 400 ''Insufficient balance''
     else after [CallPendingNonceAt fromAddress]
     (case PendingNonceAt w fromAddress of
        Inl err \<Rightarrow> fail accounts 500 ''Failed to get nonce''
      | Inr nonce \<Rightarrow> after [CallSuggestGasPrice]
     (case SuggestGasPrice w of
        Inl err \<Rightarrow> fail accounts 500 ''Failed to get gas price''
      | Inr gasFeeCap \<Rightarrow> after [CallSuggestGasTipCap]
     (case SuggestGasTipCap w of
        Inl err \<Rightarrow> fail accounts 500 ''Failed to get gas tip cap''
      | Inr gasTipCap \<Rightarrow> after [CallNetworkID]
     (case NetworkID w of
        Inl err \<Rightarrow> fail accounts 500 ''Failed to get network ID''
      | Inr chainID \<Rightarrow>
     (let toAddress = HexToAddress (RequestBody.Address req);
          msg = CallMsg fromAddress toAddress gasFeeCap gasTipCap intAmount []
      in after [CallEstimateGas msg]
     (case EstimateGas w msg of
        Inl err \<Rightarrow> fail accounts 500 ''Failed to estimate gas''
      | Inr gasLimit \<Rightarrow>
     (let tx = DynamicFeeTx chainID nonce gasFeeCap gasTipCap gasLimit toAddress intAmount []
      in after [CallSignTx tx]
     (case SignTx w tx chainID privateKey of
        Inl err \<Rightarrow> stop accounts [CallSendTransaction None] Panic
      | Inr signedTx \<Rightarrow> after [CallSendTransaction (Some signedTx)]
     (case SendTransaction w signedTx of
        Some err \<Rightarrow>
          stop accounts [LogError err] (JSON 500 (ApiResponse False ''Deal failed''))
      | None \<Rightarrow>
          \<lparr>outcome = JSON 200 (H True (Hash_Hex (Hash signedTx))
                                 (explorerUrlDefault cfg @ Hash_Hex (Hash signedTx))),
           ledger = accounts(RequestBody.Address req \<mapsto>
                      \<lparr>Account.Address = RequestBody.Address req,
                       LastWithdrawTime = Record_Now w\<rparr>),
           trace = []\<rparr>)))))))))))))"

text \<open>
  The handler. \<open>bind\<close> is what \<^verbatim>\<open>c.ShouldBindJSON(&req)\<close> gave: the error's message or
  the request.
\<close>

definition handleWithdraw ::
  "Config \<Rightarrow> World \<Rightarrow> (string \<rightharpoonup> Account) \<Rightarrow> string + RequestBody \<Rightarrow> HandlerResult" where
  "handleWithdraw cfg w accounts bind =
     (case bind of
        Inl err \<Rightarrow> stop accounts [] (JSON 400 (ApiResponse False err))
      | Inr req \<Rightarrow>
     if \<not> IsHexAddress (RequestBody.Address req) then
       stop accounts [] (JSON 400 (ApiResponse False ''Please check and enter a valid wallet address.''))
     else if in_cooldown cfg w accounts (RequestBody.Address req) then
       stop accounts [] (JSON 403 (ApiResponse False ''You can only withdraw once every 24 hours.''))
     else
     (case amount_to_wei (ParseFloat_other w) (Amount req) of
        ParseFailed err \<Rightarrow> stop accounts [Println err] NoResponse
      | AmountPanic \<Rightarrow> stop accounts [] Panic
      | IntAmount intAmount \<Rightarrow> after [CallDialContext (''https://'' @ Network req)]
     (case DialContext w (''https://'' @ Network req) of
        Some err \<Rightarrow> fail accounts 500 ''Failed to connect to Mantle client''
      | None \<Rightarrow>
          (let r = withdraw_connected cfg w accounts req intAmount
           in r\<lparr>trace := trace r @ [CallClose]\<rparr>))))"

subsection \<open>Notions used to state the properties\<close>

text \<open>The cooldown rejection is the only answer with status 403.\<close>

definition cooldown_rejected :: "HandlerResult \<Rightarrow> bool" where
  "cooldown_rejected r = (case outcome r of JSON status body \<Rightarrow> status = 403 | _ \<Rightarrow> False)"

text \<open>The success answer: status 200 and the \<^verbatim>\<open>gin.H\<close> with \<^verbatim>\<open>success: true\<close>.\<close>

definition succeeded :: "HandlerResult \<Rightarrow> bool" where
  "succeeded r =
     (case outcome r of
        JSON status (H ok tx_id url) \<Rightarrow> status = 200 \<and> ok
      | _ \<Rightarrow> False)"

text \<open>A call that signs or broadcasts.\<close>

fun signs_or_broadcasts :: "Event \<Rightarrow> bool" where
  "signs_or_broadcasts (CallSignTx tx) = True"
| "signs_or_broadcasts (CallSendTransaction t) = True"
| "signs_or_broadcasts e = False"


text \<open>
  The specification's well-formed address, in its own words: it names a missing \<^verbatim>\<open>0x\<close>
  prefix and a wrong length as malformed. So: the prefix \<^verbatim>\<open>0x\<close> and forty hexadecimal
  digits.
\<close>

definition spec_wellformed_address :: "string \<Rightarrow> bool" where
  "spec_wellformed_address s =
     (take 2 s = ''0x'' \<and> length s = 42 \<and> list_all isHexCharacter (drop 2 s))"


text \<open>The same world, with the error of every balance read replaced by nil.\<close>

definition drop_balance_error :: "World \<Rightarrow> World" where
  "drop_balance_error w = w\<lparr>BalanceAt := (\<lambda>a. (fst (BalanceAt w a), None))\<rparr>"

subsection \<open>A concrete request, configuration and world\<close>

definition example_address :: string where
  "example_address = ''0x52908400098527886E0F7030069857D2E4169EE7''"

text \<open>The same address, written without the prefix.\<close>

definition example_bare_address :: string where
  "example_bare_address = ''52908400098527886E0F7030069857D2E4169EE7''"

definition example_request :: RequestBody where
  "example_request =
     \<lparr>Network = ''rpc.sepolia.mantle.xyz'', Address = example_address, Amount = ''1.5''\<rparr>"

definition example_config :: Config where
  "example_config =
     \<lparr>integerDefault = 24,
      privateKeyDefault = ''4c0883a69102937d6231471b5dbb6204fe5129617082792ae468d01a3f362318'',
      explorerUrlDefault = ''https://explorer.sepolia.mantle.xyz/tx/''\<rparr>"

text \<open>
  A world in which every call succeeds: the operator holds 5 ether, the clock reads 100
  hours at the cooldown check and one second more when the record is written.
\<close>

definition example_world :: World where
  "example_world =
     \<lparr>ParseFloat_other = (\<lambda>s. Inl ErrSyntax),
      Since_Now = 360000000000000,
      Record_Now = 360001000000000,
      DialContext = (\<lambda>url. None),
      HexToECDSA = (\<lambda>k. Inr 1),
      Public = (\<lambda>k. Some 2),
      PubkeyToAddress = (\<lambda>p. 3),
      BalanceAt = (\<lambda>a. (Some 5000000000000000000, None)),
      PendingNonceAt = (\<lambda>a. Inr 7),
      SuggestGasPrice = Inr 20000000000,
      SuggestGasTipCap = Inr 1000000000,
      NetworkID = Inr 5003,
      EstimateGas = (\<lambda>msg. Inr 21000),
      SignTx = (\<lambda>tx chainID key. Inr (Transaction tx 11)),
      SendTransaction = (\<lambda>tx. None)\<rparr>"

text \<open>The call message and the transaction that the handler builds for the example.\<close>

definition example_msg :: CallMsg where
  "example_msg =
     CallMsg 3 (HexToAddress example_address) 20000000000 1000000000 1500000000000000000 []"

definition example_tx :: DynamicFeeTx where
  "example_tx =
     DynamicFeeTx 5003 7 20000000000 1000000000 21000 (HexToAddress example_address)
       1500000000000000000 []"

text \<open>A ledger in which the example address was served at hour 99, one hour before.\<close>

definition example_ledger :: "string \<rightharpoonup> Account" where
  "example_ledger =
     [example_address \<mapsto>
        \<lparr>Account.Address = example_address, LastWithdrawTime = 356400000000000\<rparr>]"

text \<open>A ledger in which it was served at hour 0, a hundred hours before.\<close>

definition example_old_ledger :: "string \<rightharpoonup> Account" where
  "example_old_ledger =
     [example_address \<mapsto> \<lparr>Account.Address = example_address, LastWithdrawTime = 0\<rparr>]"

section \<open>Properties\<close>

subsection \<open>Evaluating the number model on numerals\<close>

lemma bit_length_0 [simp]: "bit_length 0 = 0"
  by (simp add: bit_length.simps)

lemma bit_length_1 [simp]: "bit_length 1 = 1"
  by (simp add: bit_length.simps [of 1])

lemma bit_length_numeral [simp]:
  "bit_length (numeral k) = 1 + bit_length (numeral k div 2)"
  by (subst bit_length.simps) simp

lemma bit_length_neg_numeral [simp]: "bit_length (- numeral k) = 0"
  by (simp add: bit_length.simps)

lemma floor_rat_numeral_div [simp]:
  "\<lfloor>numeral a / numeral b :: rat\<rfloor> = numeral a div numeral b"
  using floor_divide_of_int_eq [of "numeral a" "numeral b", where ?'a = rat] by simp

lemma floor_rat_one_div [simp]:
  "\<lfloor>1 / numeral b :: rat\<rfloor> = 1 div numeral b"
  using floor_divide_of_int_eq [of 1 "numeral b", where ?'a = rat] by simp

lemma floor_rat_neg_numeral_div [simp]:
  "\<lfloor>- (numeral a / numeral b) :: rat\<rfloor> = - numeral a div numeral b"
  using floor_divide_of_int_eq [of "- numeral a" "numeral b", where ?'a = rat] by simp

lemma ceiling_rat_numeral_div [simp]:
  "\<lceil>numeral a / numeral b :: rat\<rceil> = - (- numeral a div numeral b)"
  unfolding ceiling_def by (simp flip: minus_divide_left)

lemma ceiling_rat_neg_numeral_div [simp]:
  "\<lceil>- (numeral a / numeral b) :: rat\<rceil> = - (numeral a div numeral b)"
  unfolding ceiling_def by simp

lemmas float_eval = pow2_def floor_log2_def round_half_even_def round_to_quantum_def
  round_prec53_def round_float64_def trunc_rat_def Let_def

lemmas parse_eval = special_def parse_decimal_def split_sign_def parse_exponent_def
  is_digit_def digits_val_def digit_val_def exp_digits_val_def pow10_def

lemmas amount_eval = amount_to_wei_def ParseFloat_def NewFloat_def Float_Mul_def Float_Int_def

subsection \<open>The number model is rounding to nearest\<close>

text \<open>
  The functions of the number model are written to be computed. These lemmas say what
  they compute: the binary exponent, a nearest integer, and from them a nearest number
  of 53 bits.
\<close>

lemma bit_length_nonneg: "0 \<le> bit_length n"
proof (induction n rule: bit_length.induct)
  case (1 n)
  then show ?case by (subst bit_length.simps) simp
qed

lemma bit_length_pos: "0 < n \<Longrightarrow> 0 < bit_length n"
  using bit_length_nonneg [of "n div 2"] by (subst bit_length.simps) simp

lemma bit_length_bounds:
  "0 < n \<Longrightarrow> 2 ^ nat (bit_length n - 1) \<le> n \<and> n < 2 ^ nat (bit_length n)"
proof (induction n rule: bit_length.induct)
  case (1 n)
  show ?case
  proof (cases "n = 1")
    case True
    then show ?thesis by (simp add: bit_length.simps [of 1] bit_length.simps [of 0])
  next
    case False
    with "1.prems" have h: "0 < n div 2" by simp
    with "1.IH" "1.prems"
    have ih: "2 ^ nat (bit_length (n div 2) - 1) \<le> n div 2"
             "n div 2 < 2 ^ nat (bit_length (n div 2))"
      by simp_all
    have bl: "bit_length n = 1 + bit_length (n div 2)"
      using "1.prems" by (subst bit_length.simps) simp
    have p: "0 < bit_length (n div 2)"
      using h by (rule bit_length_pos)
    then have e: "nat (bit_length (n div 2)) = Suc (nat (bit_length (n div 2) - 1))"
      by simp
    have "2 ^ nat (bit_length n - 1) = (2::int) ^ nat (bit_length (n div 2))"
      by (simp add: bl)
    also have "\<dots> = 2 * 2 ^ nat (bit_length (n div 2) - 1)"
      by (subst e) simp
    also have "\<dots> \<le> 2 * (n div 2)"
      using ih(1) by simp
    also have "\<dots> \<le> n" by simp
    finally have lo: "2 ^ nat (bit_length n - 1) \<le> n" .
    have "n < 2 * (n div 2) + 2" by presburger
    also have "\<dots> \<le> 2 * 2 ^ nat (bit_length (n div 2))"
      using ih(2) by simp
    also have "\<dots> = 2 ^ nat (bit_length n)"
      using p by (simp add: bl nat_add_distrib)
    finally have hi: "n < 2 ^ nat (bit_length n)" .
    from lo hi show ?thesis by simp
  qed
qed

lemma pow2_pos: "0 < pow2 e"
  by (simp add: pow2_def)

text \<open>\<open>floor_log2\<close> is the binary exponent.\<close>

lemma floor_log2_bounds:
  assumes "0 < q"
  shows "pow2 (floor_log2 q) \<le> q \<and> q < pow2 (floor_log2 q + 1)"
proof (cases "1 \<le> q")
  case True
  define n where "n = \<lfloor>q\<rfloor>"
  have n1: "1 \<le> n" using True by (simp add: n_def le_floor_iff)
  then have b: "2 ^ nat (bit_length n - 1) \<le> n" "n < 2 ^ nat (bit_length n)"
    using bit_length_bounds [of n] by simp_all
  have bp: "0 < bit_length n" using n1 by (intro bit_length_pos) simp
  have fl: "floor_log2 q = bit_length n - 1"
    using True by (simp add: floor_log2_def n_def)
  have "pow2 (bit_length n - 1) = of_int (2 ^ nat (bit_length n - 1))"
    using bp by (simp add: pow2_def)
  also have "\<dots> \<le> of_int n" using b(1) by (simp only: of_int_le_iff)
  also have "\<dots> \<le> q" by (simp add: n_def)
  finally have lo: "pow2 (floor_log2 q) \<le> q" by (simp add: fl)
  have "q < of_int (n + 1)" using floor_correct [of q] by (simp add: n_def)
  also have "\<dots> \<le> of_int (2 ^ nat (bit_length n))"
    using b(2) by (simp only: of_int_le_iff)
  also have "\<dots> = pow2 (bit_length n)"
    using bp by (simp add: pow2_def)
  finally have hi: "q < pow2 (floor_log2 q + 1)" by (simp add: fl)
  from lo hi show ?thesis by simp
next
  case False
  define m where "m = \<lceil>1 / q\<rceil> - 1"
  from False assms have inv: "1 < 1 / q" by simp
  then have m1: "1 \<le> m" by (simp add: m_def less_ceiling_iff)
  then have b: "2 ^ nat (bit_length m - 1) \<le> m" "m < 2 ^ nat (bit_length m)"
    using bit_length_bounds [of m] by simp_all
  have bp: "0 < bit_length m" using m1 by (intro bit_length_pos) simp
  have fl: "floor_log2 q = - bit_length m"
    using False by (simp add: floor_log2_def m_def)
  have "1 / q \<le> of_int (m + 1)" using ceiling_correct [of "1 / q"] by (simp add: m_def)
  also have "\<dots> \<le> of_int (2 ^ nat (bit_length m))"
    using b(2) by (simp only: of_int_le_iff)
  finally have "1 / q \<le> 2 ^ nat (bit_length m)" by simp
  then have "1 \<le> 2 ^ nat (bit_length m) * q"
    using assms by (simp add: pos_divide_le_eq)
  then have "1 / 2 ^ nat (bit_length m) \<le> q"
    by (simp add: pos_divide_le_eq mult.commute)
  then have lo: "pow2 (floor_log2 q) \<le> q"
    using bp by (simp add: fl pow2_def)
  have "(of_int (2 ^ nat (bit_length m - 1)) :: rat) \<le> of_int m"
    using b(1) by (simp only: of_int_le_iff)
  also have "of_int m < 1 / q"
    using ceiling_correct [of "1 / q"] by (simp add: m_def)
  finally have "2 ^ nat (bit_length m - 1) < 1 / q" by simp
  then have "2 ^ nat (bit_length m - 1) * q < 1"
    using assms by (simp add: pos_less_divide_eq)
  then have "q < 1 / 2 ^ nat (bit_length m - 1)"
    by (simp add: pos_less_divide_eq mult.commute)
  moreover have "pow2 (- bit_length m + 1) = 1 / 2 ^ nat (bit_length m - 1)"
    using bp by (auto simp: pow2_def)
  ultimately have hi: "q < pow2 (floor_log2 q + 1)" by (simp add: fl)
  from lo hi show ?thesis by simp
qed

text \<open>Rounding moves a number by at most half a unit, and leaves an integer in place.\<close>

lemma round_half_even_error: "\<bar>of_int (round_half_even q) - q\<bar> \<le> 1 / 2"
proof -
  have "of_int \<lfloor>q\<rfloor> \<le> q" "q < of_int \<lfloor>q\<rfloor> + 1"
    using floor_correct [of q] by simp_all
  then show ?thesis
    by (auto simp: round_half_even_def Let_def abs_if; linarith)
qed

lemma round_to_quantum_error: "\<bar>round_to_quantum e q - q\<bar> \<le> pow2 e / 2"
proof -
  have "round_to_quantum e q - q
          = (of_int (round_half_even (q / pow2 e)) - q / pow2 e) * pow2 e"
    using pow2_pos [of e] by (simp add: round_to_quantum_def left_diff_distrib)
  then have "\<bar>round_to_quantum e q - q\<bar>
          = \<bar>of_int (round_half_even (q / pow2 e)) - q / pow2 e\<bar> * pow2 e"
    using pow2_pos [of e] by (simp add: abs_mult)
  also have "\<dots> \<le> 1 / 2 * pow2 e"
    using round_half_even_error [of "q / pow2 e"] pow2_pos [of e]
    by (intro mult_right_mono) simp_all
  finally show ?thesis by simp
qed

lemma pow2_powi: "pow2 e = 2 powi e"
  by (simp add: pow2_def power_int_def power_inverse inverse_eq_divide power_one_over)

lemma pow2_add: "pow2 (a + b) = pow2 a * pow2 b"
  by (simp add: pow2_powi power_int_add)

lemma pow2_mono: "a \<le> b \<Longrightarrow> pow2 a \<le> pow2 b"
  by (simp add: pow2_powi power_int_increasing)

lemma pow2_less_imp: "pow2 a < pow2 b \<Longrightarrow> a < b"
  using pow2_mono [of b a] by (cases "a < b") simp_all

lemma pow2_nonneg_int: "0 \<le> e \<Longrightarrow> pow2 e = of_int (2 ^ nat e)"
  by (simp add: pow2_def)

lemma round_half_even_of_int: "round_half_even (of_int k) = k"
  by (simp add: round_half_even_def)

lemma trunc_rat_error: "\<bar>of_int (trunc_rat q) - q\<bar> < 1"
proof (cases "0 \<le> q")
  case True
  have "of_int \<lfloor>q\<rfloor> \<le> q" "q < of_int \<lfloor>q\<rfloor> + 1"
    using floor_correct [of q] by simp_all
  then have "\<bar>of_int \<lfloor>q\<rfloor> - q\<bar> < 1" by linarith
  with True show ?thesis by (simp add: trunc_rat_def)
next
  case False
  have "q \<le> of_int \<lceil>q\<rceil>" "of_int \<lceil>q\<rceil> < q + 1"
    using ceiling_correct [of q] by simp_all
  then have "\<bar>of_int \<lceil>q\<rceil> - q\<bar> < 1" by linarith
  with False show ?thesis by (simp add: trunc_rat_def)
qed

text \<open>Rounding at precision 53 moves a number by at most one part in \<open>2^53\<close>.\<close>

lemma round_prec53_error: "\<bar>round_prec53 q - q\<bar> \<le> \<bar>q\<bar> / 2 ^ 53"
proof (cases "q = 0")
  case True
  then show ?thesis by (simp add: round_prec53_def)
next
  case False
  define e where "e = floor_log2 \<bar>q\<bar>"
  define R where "R = round_to_quantum (e - 52) \<bar>q\<bar>"
  from False have pos: "0 < \<bar>q\<bar>" by simp
  from floor_log2_bounds [OF pos] have lo: "pow2 e \<le> \<bar>q\<bar>" by (simp add: e_def)
  have "q = sgn q * \<bar>q\<bar>" by (simp add: sgn_mult_abs)
  then have "round_prec53 q - q = sgn q * (R - \<bar>q\<bar>)"
    using False by (simp add: round_prec53_def R_def e_def right_diff_distrib)
  then have "\<bar>round_prec53 q - q\<bar> = \<bar>R - \<bar>q\<bar>\<bar>"
    using False by (simp add: abs_mult abs_sgn_eq)
  also have "\<dots> \<le> pow2 (e - 52) / 2"
    unfolding R_def by (rule round_to_quantum_error)
  also have "pow2 (e - 52) / 2 = pow2 e / 2 ^ 53"
    using pow2_add [of e "- 52"] by (simp add: pow2_def)
  also have "\<dots> \<le> \<bar>q\<bar> / 2 ^ 53"
    using lo by (simp add: divide_right_mono)
  finally show ?thesis .
qed

text \<open>A number of at most 53 significant bits is left as it is.\<close>

lemma round_prec53_exact:
  assumes "\<bar>k\<bar> < 2 ^ 53"
  shows "round_prec53 (of_int k * pow2 j) = of_int k * pow2 j"
proof (cases "k = 0")
  case True
  then show ?thesis by (simp add: round_prec53_def)
next
  case False
  define q where "q = of_int k * pow2 j"
  define e where "e = floor_log2 \<bar>q\<bar>"
  have q0: "q \<noteq> 0" using False pow2_pos [of j] by (simp add: q_def)
  then have pos: "0 < \<bar>q\<bar>" by simp
  have aq: "\<bar>q\<bar> = of_int \<bar>k\<bar> * pow2 j"
    using pow2_pos [of j] by (simp add: q_def abs_mult)
  from floor_log2_bounds [OF pos] have "pow2 e \<le> \<bar>q\<bar>" by (simp add: e_def)
  also have "\<bar>q\<bar> < of_int (2 ^ 53) * pow2 j"
    unfolding aq using assms pow2_pos [of j]
    by (intro mult_strict_right_mono) (simp_all only: of_int_less_iff)
  also have "\<dots> = pow2 (53 + j)"
    by (simp add: pow2_add) (simp add: pow2_def)
  finally have "e < 53 + j" by (rule pow2_less_imp)
  then have d: "0 \<le> j - (e - 52)" by simp
  have "\<bar>q\<bar> / pow2 (e - 52) = of_int \<bar>k\<bar> * (pow2 j / pow2 (e - 52))"
    by (simp add: aq)
  also have "pow2 j / pow2 (e - 52) = pow2 (j - (e - 52))"
    using pow2_add [of "j - (e - 52)" "e - 52"] pow2_pos [of "e - 52"] by simp
  also have "\<dots> = of_int (2 ^ nat (j - (e - 52)))"
    using d by (rule pow2_nonneg_int)
  finally have "\<bar>q\<bar> / pow2 (e - 52) = of_int (\<bar>k\<bar> * 2 ^ nat (j - (e - 52)))"
    by simp
  then have "round_half_even (\<bar>q\<bar> / pow2 (e - 52)) = \<bar>k\<bar> * 2 ^ nat (j - (e - 52))"
    by (simp only: round_half_even_of_int)
  then have "of_int (round_half_even (\<bar>q\<bar> / pow2 (e - 52))) = \<bar>q\<bar> / pow2 (e - 52)"
    using \<open>\<bar>q\<bar> / pow2 (e - 52) = of_int (\<bar>k\<bar> * 2 ^ nat (j - (e - 52)))\<close> by simp
  then have "round_to_quantum (e - 52) \<bar>q\<bar> = \<bar>q\<bar>"
    using pow2_pos [of "e - 52"] by (simp add: round_to_quantum_def)
  then have "round_prec53 q = sgn q * \<bar>q\<bar>"
    using q0 by (simp add: round_prec53_def e_def)
  then show ?thesis by (simp add: sgn_mult_abs q_def)
qed

text \<open>
  Likewise a number that a \<^verbatim>\<open>float64\<close> holds (53 bits, exponent in range) is its own
  nearest \<^verbatim>\<open>float64\<close>.
\<close>

lemma round_float64_exact:
  assumes "\<bar>k\<bar> < 2 ^ 53" and "- 1074 \<le> j" and "j \<le> 971"
  shows "round_float64 (of_int k * pow2 j) = Some (of_int k * pow2 j)"
proof (cases "k = 0")
  case True
  then show ?thesis by (simp add: round_float64_def)
next
  case False
  define q where "q = of_int k * pow2 j"
  define e where "e = max (floor_log2 \<bar>q\<bar>) (- 1022)"
  have q0: "q \<noteq> 0" using False pow2_pos [of j] by (simp add: q_def)
  then have pos: "0 < \<bar>q\<bar>" by simp
  have aq: "\<bar>q\<bar> = of_int \<bar>k\<bar> * pow2 j"
    using pow2_pos [of j] by (simp add: q_def abs_mult)
  have lt: "\<bar>q\<bar> < of_int (2 ^ 53) * pow2 j"
    unfolding aq using assms(1) pow2_pos [of j]
    by (intro mult_strict_right_mono) (simp_all only: of_int_less_iff)
  have top: "of_int (2 ^ 53) * pow2 j = pow2 (53 + j)"
    by (simp add: pow2_add) (simp add: pow2_def)
  from floor_log2_bounds [OF pos] have "pow2 (floor_log2 \<bar>q\<bar>) \<le> \<bar>q\<bar>" by simp
  also note lt
  also note top
  finally have "floor_log2 \<bar>q\<bar> < 53 + j" by (rule pow2_less_imp)
  with assms(2) have d: "0 \<le> j - (e - 52)" by (simp add: e_def)
  have "\<bar>q\<bar> / pow2 (e - 52) = of_int \<bar>k\<bar> * (pow2 j / pow2 (e - 52))"
    by (simp add: aq)
  also have "pow2 j / pow2 (e - 52) = pow2 (j - (e - 52))"
    using pow2_add [of "j - (e - 52)" "e - 52"] pow2_pos [of "e - 52"] by simp
  also have "\<dots> = of_int (2 ^ nat (j - (e - 52)))"
    using d by (rule pow2_nonneg_int)
  finally have int: "\<bar>q\<bar> / pow2 (e - 52) = of_int (\<bar>k\<bar> * 2 ^ nat (j - (e - 52)))"
    by simp
  then have "round_half_even (\<bar>q\<bar> / pow2 (e - 52)) = \<bar>k\<bar> * 2 ^ nat (j - (e - 52))"
    by (simp only: round_half_even_of_int)
  with int have "of_int (round_half_even (\<bar>q\<bar> / pow2 (e - 52))) = \<bar>q\<bar> / pow2 (e - 52)"
    by simp
  then have r: "round_to_quantum (e - 52) \<bar>q\<bar> = \<bar>q\<bar>"
    using pow2_pos [of "e - 52"] by (simp add: round_to_quantum_def)
  have "pow2 (53 + j) \<le> pow2 1024"
    using assms(3) by (intro pow2_mono) simp
  with lt top have "\<not> pow2 1024 \<le> \<bar>q\<bar>" by simp
  with r q0 have "round_float64 q = Some (sgn q * \<bar>q\<bar>)"
    by (simp add: round_float64_def e_def Let_def)
  then show ?thesis by (simp add: sgn_mult_abs q_def)
qed

text \<open>The parser on a few strings, inside and outside the plain decimal syntax.\<close>

lemma parse_decimal_examples:
  "parse_decimal ''1.5'' = Some (3 / 2)"
  "parse_decimal ''0'' = Some 0"
  "parse_decimal ''-12.50e-1'' = Some (- 5 / 4)"
  "parse_decimal ''.5'' = Some (1 / 2)"
  "parse_decimal ''5.'' = Some 5"
  "parse_decimal ''+1E+2'' = Some 100"
  "parse_decimal ''abc'' = None"
  "parse_decimal ''1.5x'' = None"
  "parse_decimal ''.'' = None"
  "parse_decimal ''1e'' = None"
  "parse_decimal [] = None"
  by (simp_all add: parse_eval)

text \<open>
  The product is rounded to 53 bits, so the conversion is not exact on every decimal:
  \<^verbatim>\<open>1.1\<close> becomes 128 wei more than \<open>1.1 * 10^18\<close>.
\<close>

lemma amount_to_wei_rounds:
  "amount_to_wei other ''1.1'' = IntAmount 1100000000000000128"
  by (simp add: amount_eval parse_eval float_eval)

lemma amount_to_wei_example: "amount_to_wei other ''0.01'' = IntAmount 10000000000000000"
  by (simp add: amount_eval parse_eval float_eval)

lemma amount_to_wei_1_5: "amount_to_wei other ''1.5'' = IntAmount 1500000000000000000"
  by (simp add: amount_eval parse_eval float_eval)

text \<open>
  The special words are not errors. An infinity stays infinite under the product, \<^verbatim>\<open>Int\<close>
  then leaves the fresh integer at 0, and the handler goes on with an amount of 0 wei; a
  NaN makes \<^verbatim>\<open>big.NewFloat\<close> panic.
\<close>

lemma special_examples:
  "special ''inf'' = Some (Inf False)"
  "special ''-Infinity'' = Some (Inf True)"
  "special ''NaN'' = Some NaN"
  "special ''+nan'' = None"
  "special ''infi'' = None"
  "special ''1.5'' = None"
  "special [] = None"
  by (simp_all add: special_def split_sign_def)


lemma amount_to_wei_nan: "amount_to_wei other ''nan'' = AmountPanic"
  by (simp add: amount_eval special_def split_sign_def)

subsection \<open>Amount normalization\<close>

text \<open>
  Whenever the parser yields a finite value, the conversion gives an integer within one
  wei plus one part in \<open>2^53\<close> of the product with \<open>10^18\<close>; it gives the truncated
  product itself when the product has at most 53 significant bits.
\<close>

lemma amount_to_wei_finite:
  "ParseFloat other s = Inr (Finite x) \<Longrightarrow>
   amount_to_wei other s = IntAmount (trunc_rat (round_prec53 (x * 10 ^ 18)))"
  by (simp add: amount_to_wei_def NewFloat_def Float_Mul_def Float_Int_def)

lemma amount_to_wei_error:
  "\<bar>of_int (trunc_rat (round_prec53 (x * 10 ^ 18))) - x * 10 ^ 18\<bar>
     < 1 + \<bar>x * 10 ^ 18\<bar> / 2 ^ 53"
  using trunc_rat_error [of "round_prec53 (x * 10 ^ 18)"] round_prec53_error [of "x * 10 ^ 18"]
  by linarith

lemma amount_to_wei_exact:
  assumes "ParseFloat other s = Inr (Finite x)"
      and "x * 10 ^ 18 = of_int k * pow2 j" and "\<bar>k\<bar> < 2 ^ 53"
  shows "amount_to_wei other s = IntAmount (trunc_rat (x * 10 ^ 18))"
  using assms by (simp add: amount_to_wei_finite round_prec53_exact)

text \<open>
  C6. The amount string is converted by parsing it to a \<^verbatim>\<open>float64\<close>, multiplying by
  \<open>10^18\<close> and truncating towards zero: whenever the parser yields the finite value \<open>x\<close>,
  the integer amount is the truncation of the product as \<^verbatim>\<open>big.Float\<close> holds it at 53 bits,
  which is within one wei plus one part in \<open>2^53\<close> of \<open>x * 10^18\<close>. On the input \<^verbatim>\<open>1.5\<close>
  the result is exactly 1500000000000000000, and on \<^verbatim>\<open>0\<close> it is 0.
\<close>

theorem amount_normalization:
  "(\<forall>s x. ParseFloat other s = Inr (Finite x) \<longrightarrow>
      (\<exists>n. amount_to_wei other s = IntAmount n
         \<and> n = trunc_rat (round_prec53 (x * 10 ^ 18))
         \<and> \<bar>of_int n - x * 10 ^ 18\<bar> < 1 + \<bar>x * 10 ^ 18\<bar> / 2 ^ 53))
   \<and> amount_to_wei other ''1.5'' = IntAmount 1500000000000000000
   \<and> amount_to_wei other ''0'' = IntAmount 0"
proof (intro conjI allI impI)
  fix s x
  assume "ParseFloat other s = Inr (Finite x)"
  then have "amount_to_wei other s = IntAmount (trunc_rat (round_prec53 (x * 10 ^ 18)))"
    by (rule amount_to_wei_finite)
  with amount_to_wei_error [of x]
  show "\<exists>n. amount_to_wei other s = IntAmount n
         \<and> n = trunc_rat (round_prec53 (x * 10 ^ 18))
         \<and> \<bar>of_int n - x * 10 ^ 18\<bar> < 1 + \<bar>x * 10 ^ 18\<bar> / 2 ^ 53"
    by simp
next
  show "amount_to_wei other ''1.5'' = IntAmount 1500000000000000000"
    by (simp add: amount_eval parse_eval float_eval)
next
  show "amount_to_wei other ''0'' = IntAmount 0"
    by (simp add: amount_eval parse_eval float_eval)
qed

theorem amount_normalization_witness:
  "ParseFloat (\<lambda>s. Inl ErrSyntax) ''1.5'' = Inr (Finite (3 / 2))
   \<and> amount_to_wei (\<lambda>s. Inl ErrSyntax) ''1.5''
       = IntAmount (trunc_rat (round_prec53 (3 / 2 * 10 ^ 18)))
   \<and> trunc_rat (round_prec53 (3 / 2 * 10 ^ 18)) = 1500000000000000000"
proof -
  have p: "ParseFloat (\<lambda>s. Inl ErrSyntax) ''1.5'' = Inr (Finite (3 / 2))"
    by (simp add: ParseFloat_def parse_eval float_eval)
  have t: "trunc_rat (round_prec53 (3 / 2 * 10 ^ 18)) = 1500000000000000000"
    by (simp add: float_eval)
  from amount_normalization [of "\<lambda>s. Inl ErrSyntax"] p
  have "amount_to_wei (\<lambda>s. Inl ErrSyntax) ''1.5''
          = IntAmount (trunc_rat (round_prec53 (3 / 2 * 10 ^ 18)))"
    by blast
  with p t show ?thesis by simp
qed

subsection \<open>The handler on the example\<close>

lemmas handler_defs =
  handleWithdraw_def withdraw_connected_def stop_def after_def fail_def Let_def

lemmas handler_splits = sum.splits option.splits if_splits amount_result.splits

lemmas example_defs = example_request_def example_config_def example_world_def
  example_msg_def example_tx_def

lemma example_valid: "IsHexAddress example_address"
  by (simp add: IsHexAddress_def has0xPrefix_def isHex_def isHexCharacter_def
      example_address_def)

text \<open>The prefix is optional: forty digits alone are an address too.\<close>

lemma IsHexAddress_without_prefix: "IsHexAddress example_bare_address"
  by (simp add: IsHexAddress_def has0xPrefix_def isHex_def isHexCharacter_def
      example_bare_address_def)

text \<open>What the specification calls well-formed, the library accepts.\<close>

lemma spec_wellformed_IsHexAddress: "spec_wellformed_address s \<Longrightarrow> IsHexAddress s"
proof -
  assume a: "spec_wellformed_address s"
  then have t: "take 2 s = ''0x''" and l: "length s = 42"
    and h: "list_all isHexCharacter (drop 2 s)"
    by (simp_all add: spec_wellformed_address_def)
  from l obtain a b r where s: "s = a # b # r"
    by (cases s; cases "tl s") auto
  with t have "a = CHR ''0''" "b = CHR ''x''" by simp_all
  with s l have "has0xPrefix s" by (simp add: has0xPrefix_def)
  with l h show ?thesis by (simp add: IsHexAddress_def isHex_def)
qed

lemma HexToAddress_example:
  "HexToAddress ''0x00000000000000000000000000000000000001fF'' = 511"
  by (simp add: HexToAddress_def has0xPrefix_def isHexCharacter_def hex_val_def is_digit_def)

lemma not_in_cooldown_empty: "\<not> in_cooldown cfg w Map.empty addr"
  by (simp add: in_cooldown_def)

lemma example_in_cooldown:
  "in_cooldown example_config example_world example_ledger example_address"
  by (simp add: in_cooldown_def example_ledger_def example_config_def example_world_def
      cooldown_duration_def Hour_def Sub_def)

lemma example_run:
  "handleWithdraw example_config example_world Map.empty (Inr example_request) =
     \<lparr>outcome = JSON 200 (H True (Hash_Hex 11)
                  (''https://explorer.sepolia.mantle.xyz/tx/'' @ Hash_Hex 11)),
      ledger = [example_address \<mapsto>
                  \<lparr>Account.Address = example_address, LastWithdrawTime = 360001000000000\<rparr>],
      trace = [CallDialContext ''https://rpc.sepolia.mantle.xyz'', CallBalanceAt 3,
               CallPendingNonceAt 3, CallSuggestGasPrice, CallSuggestGasTipCap, CallNetworkID,
               CallEstimateGas example_msg, CallSignTx example_tx,
               CallSendTransaction (Some (Transaction example_tx 11)), CallClose]\<rparr>"
  by (simp add: handler_defs example_valid not_in_cooldown_empty amount_to_wei_1_5 example_defs)

lemma example_cooldown_run:
  "handleWithdraw example_config example_world example_ledger (Inr example_request) =
     \<lparr>outcome = JSON 403 (ApiResponse False ''You can only withdraw once every 24 hours.''),
      ledger = example_ledger, trace = []\<rparr>"
  using example_in_cooldown
  by (simp add: handleWithdraw_def stop_def example_valid example_request_def)

lemma example_poor_run:
  "handleWithdraw example_config
      (example_world\<lparr>BalanceAt := (\<lambda>a. (Some 1000000000000000000, None))\<rparr>)
      Map.empty (Inr example_request) =
     \<lparr>outcome = JSON 400 (ApiResponse False ''Insufficient balance''),
      ledger = Map.empty,
      trace = [CallDialContext ''https://rpc.sepolia.mantle.xyz'', CallBalanceAt 3,
               LogError ''Insufficient balance'', CallClose]\<rparr>"
  by (simp add: handler_defs example_valid not_in_cooldown_empty amount_to_wei_1_5 example_defs)

lemma example_nil_balance_run:
  "handleWithdraw example_config
      (example_world\<lparr>BalanceAt := (\<lambda>a. (None, Some ''connection reset''))\<rparr>)
      Map.empty (Inr example_request) =
     \<lparr>outcome = Panic, ledger = Map.empty,
      trace = [CallDialContext ''https://rpc.sepolia.mantle.xyz'', CallBalanceAt 3, CallClose]\<rparr>"
  by (simp add: handler_defs example_valid not_in_cooldown_empty amount_to_wei_1_5 example_defs)

lemma example_old_run:
  "handleWithdraw example_config example_world example_old_ledger (Inr example_request) =
     \<lparr>outcome = JSON 200 (H True (Hash_Hex 11)
                  (''https://explorer.sepolia.mantle.xyz/tx/'' @ Hash_Hex 11)),
      ledger = example_old_ledger(example_address \<mapsto>
                  \<lparr>Account.Address = example_address, LastWithdrawTime = 360001000000000\<rparr>),
      trace = [CallDialContext ''https://rpc.sepolia.mantle.xyz'', CallBalanceAt 3,
               CallPendingNonceAt 3, CallSuggestGasPrice, CallSuggestGasTipCap, CallNetworkID,
               CallEstimateGas example_msg, CallSignTx example_tx,
               CallSendTransaction (Some (Transaction example_tx 11)), CallClose]\<rparr>"
proof -
  have "\<not> in_cooldown example_config example_world example_old_ledger example_address"
    by (simp add: in_cooldown_def example_old_ledger_def example_config_def example_world_def
        cooldown_duration_def Hour_def Sub_def)
  then show ?thesis
    by (simp add: handler_defs example_valid amount_to_wei_1_5 example_defs)
qed

lemma Hash_Hex_11:
  "Hash_Hex 11 = ''0x000000000000000000000000000000000000000000000000000000000000000b''"
  by (simp add: Hash_Hex_def hex_digit_def upt_rec)

subsection \<open>Address validation\<close>

text \<open>
  The specification counts an address without the \<^verbatim>\<open>0x\<close> prefix as malformed and has it
  answered with status 400 before any connection is opened. The handler asks
  \<^verbatim>\<open>common.IsHexAddress\<close>, for which the prefix is optional: a first request for the example
  address written without the prefix is dialled, broadcast and answered with status 200.
\<close>

theorem bare_address_served:
  "\<not> spec_wellformed_address example_bare_address
   \<and> handleWithdraw example_config example_world Map.empty
       (Inr \<lparr>Network = ''rpc.sepolia.mantle.xyz'', Address = example_bare_address,
             Amount = ''1.5''\<rparr>) =
     \<lparr>outcome = JSON 200 (H True (Hash_Hex 11)
                  (''https://explorer.sepolia.mantle.xyz/tx/'' @ Hash_Hex 11)),
      ledger = [example_bare_address \<mapsto>
                  \<lparr>Account.Address = example_bare_address,
                   LastWithdrawTime = 360001000000000\<rparr>],
      trace = [CallDialContext ''https://rpc.sepolia.mantle.xyz'', CallBalanceAt 3,
               CallPendingNonceAt 3, CallSuggestGasPrice, CallSuggestGasTipCap, CallNetworkID,
               CallEstimateGas
                 (CallMsg 3 (HexToAddress example_bare_address) 20000000000 1000000000
                    1500000000000000000 []),
               CallSignTx
                 (DynamicFeeTx 5003 7 20000000000 1000000000 21000
                    (HexToAddress example_bare_address) 1500000000000000000 []),
               CallSendTransaction
                 (Some (Transaction
                    (DynamicFeeTx 5003 7 20000000000 1000000000 21000
                       (HexToAddress example_bare_address) 1500000000000000000 []) 11)),
               CallClose]\<rparr>"
proof -
  have "\<not> spec_wellformed_address example_bare_address"
    by (simp add: spec_wellformed_address_def example_bare_address_def)
  moreover have "handleWithdraw example_config example_world Map.empty
       (Inr \<lparr>Network = ''rpc.sepolia.mantle.xyz'', Address = example_bare_address,
             Amount = ''1.5''\<rparr>) =
     \<lparr>outcome = JSON 200 (H True (Hash_Hex 11)
                  (''https://explorer.sepolia.mantle.xyz/tx/'' @ Hash_Hex 11)),
      ledger = [example_bare_address \<mapsto>
                  \<lparr>Account.Address = example_bare_address,
                   LastWithdrawTime = 360001000000000\<rparr>],
      trace = [CallDialContext ''https://rpc.sepolia.mantle.xyz'', CallBalanceAt 3,
               CallPendingNonceAt 3, CallSuggestGasPrice, CallSuggestGasTipCap, CallNetworkID,
               CallEstimateGas
                 (CallMsg 3 (HexToAddress example_bare_address) 20000000000 1000000000
                    1500000000000000000 []),
               CallSignTx
                 (DynamicFeeTx 5003 7 20000000000 1000000000 21000
                    (HexToAddress example_bare_address) 1500000000000000000 []),
               CallSendTransaction
                 (Some (Transaction
                    (DynamicFeeTx 5003 7 20000000000 1000000000 21000
                       (HexToAddress example_bare_address) 1500000000000000000 []) 11)),
               CallClose]\<rparr>"
    by (simp add: handler_defs IsHexAddress_without_prefix not_in_cooldown_empty
        amount_to_wei_1_5 example_config_def example_world_def)
  ultimately show ?thesis by simp
qed

text \<open>
  C7, as the handler has it. A request whose address is not forty hexadecimal digits, with
  or without a leading \<^verbatim>\<open>0x\<close> or \<^verbatim>\<open>0X\<close> (that is what \<^verbatim>\<open>common.IsHexAddress\<close> tests), is answered
  with status 400 and \<^verbatim>\<open>success: false\<close>, and the handler has made no call at all by then:
  no chain connection was opened. The map is as before.
\<close>

theorem invalid_address_rejected:
  "\<not> IsHexAddress (RequestBody.Address req) \<Longrightarrow>
   handleWithdraw cfg w accounts (Inr req) =
     \<lparr>outcome = JSON 400 (ApiResponse False ''Please check and enter a valid wallet address.''),
      ledger = accounts, trace = []\<rparr>"
  by (simp add: handleWithdraw_def stop_def)

theorem invalid_address_rejected_witness:
  "\<not> IsHexAddress ''0x123''
   \<and> handleWithdraw example_config example_world Map.empty
       (Inr \<lparr>Network = ''rpc.sepolia.mantle.xyz'', Address = ''0x123'', Amount = ''1.5''\<rparr>) =
     \<lparr>outcome = JSON 400 (ApiResponse False ''Please check and enter a valid wallet address.''),
      ledger = Map.empty, trace = []\<rparr>"
proof -
  have bad: "\<not> IsHexAddress ''0x123''"
    by (simp add: IsHexAddress_def has0xPrefix_def)
  from bad invalid_address_rejected
    [of "\<lparr>Network = ''rpc.sepolia.mantle.xyz'', Address = ''0x123'', Amount = ''1.5''\<rparr>"
        example_config example_world Map.empty]
  show ?thesis by simp
qed

subsection \<open>The cooldown\<close>

lemma sint_word_of_int_64:
  "- (2 ^ 63) \<le> x \<Longrightarrow> x < 2 ^ 63 \<Longrightarrow> sint (word_of_int x :: Duration) = x"
  by (simp add: sint_sbintrunc' signed_take_bit_int_eq_self)

text \<open>From an earlier instant to a later one, the measured time is the true one, capped.\<close>

lemma sint_Sub: "u \<le> t \<Longrightarrow> sint (Sub t u) = min (t - u) (2 ^ 63 - 1)"
  by (simp add: Sub_def Let_def sint_word_of_int_64 del: of_int_diff)

lemma sint_Duration_le: "sint (d :: Duration) \<le> 2 ^ 63 - 1"
  using sint_lt [of d] by simp

lemma Sub_less_iff:
  "u \<le> t \<Longrightarrow> sint (Sub t u) < sint (d :: Duration) \<longleftrightarrow> t - u < sint d"
  using sint_Duration_le [of d] by (auto simp: sint_Sub min_def)

text \<open>
  The cooldown is the configured number of hours as long as that number of hours fits
  an \<^verbatim>\<open>int64\<close> of nanoseconds, that is up to 2562047 hours; one hour more wraps around to
  a negative duration.
\<close>

lemma cooldown_duration_hours:
  assumes "- 2562047 \<le> sint (integerDefault cfg)" and "sint (integerDefault cfg) \<le> 2562047"
  shows "sint (cooldown_duration cfg) = sint (integerDefault cfg) * 3600000000000"
proof -
  have h: "sint Hour = 3600000000000"
    by (simp add: Hour_def)
  have "sint (cooldown_duration cfg)
          = signed_take_bit 63 (sint (integerDefault cfg) * 3600000000000)"
    by (simp add: cooldown_duration_def sint_word_ariths h)
  also have "\<dots> = sint (integerDefault cfg) * 3600000000000"
    using assms by (intro signed_take_bit_int_eq_self) simp_all
  finally show ?thesis .
qed

lemma cooldown_duration_wraps:
  "sint (cooldown_duration (cfg\<lparr>integerDefault := 2562048\<rparr>)) = - 9223371273709551616"
  by (simp add: cooldown_duration_def Hour_def)

text \<open>Past the cooldown check, the map plays no part in the answer or in the calls.\<close>

lemma withdraw_connected_accounts:
  "outcome (withdraw_connected cfg w accounts req n)
     = outcome (withdraw_connected cfg w accounts' req n)
   \<and> trace (withdraw_connected cfg w accounts req n)
     = trace (withdraw_connected cfg w accounts' req n)"
  by (auto simp: withdraw_connected_def stop_def after_def fail_def Let_def
      split: handler_splits)

lemma handleWithdraw_not_in_cooldown:
  assumes "\<not> in_cooldown cfg w accounts (RequestBody.Address req)"
      and "\<not> in_cooldown cfg w accounts' (RequestBody.Address req)"
  shows "outcome (handleWithdraw cfg w accounts (Inr req))
           = outcome (handleWithdraw cfg w accounts' (Inr req))
       \<and> trace (handleWithdraw cfg w accounts (Inr req))
           = trace (handleWithdraw cfg w accounts' (Inr req))"
  using assms withdraw_connected_accounts [of cfg w accounts req _ accounts']
  by (auto simp: handleWithdraw_def stop_def after_def fail_def Let_def split: handler_splits)

lemma cooldown_rejected_iff:
  "IsHexAddress (RequestBody.Address req) \<Longrightarrow>
   cooldown_rejected (handleWithdraw cfg w accounts (Inr req))
     \<longleftrightarrow> in_cooldown cfg w accounts (RequestBody.Address req)"
  by (auto simp: handler_defs cooldown_rejected_def split: handler_splits)

lemma not_cooldown_rejected:
  "\<not> in_cooldown cfg w accounts (RequestBody.Address req) \<Longrightarrow>
   \<not> cooldown_rejected (handleWithdraw cfg w accounts (Inr req))"
  by (auto simp: handler_defs cooldown_rejected_def split: handler_splits)

text \<open>
  C1. A request for an address with no record is never cooldown-rejected. For an address
  recorded at \<open>t0\<close>, a request read at a clock time \<open>t\<close> not before \<open>t0\<close>, and \<open>d\<close> the
  cooldown duration the handler computes from the configuration: the request is
  cooldown-rejected precisely when \<open>t - t0 < d\<close>, and it is let through, that is answered
  and carried out as if the address had no record, precisely when \<open>t - t0 \<ge> d\<close>. That \<open>d\<close>
  is the configured number of hours, for every number of hours up to 2562047.
\<close>

theorem cooldown_eligibility:
  "(accounts (RequestBody.Address req) = None \<longrightarrow>
      \<not> cooldown_rejected (handleWithdraw cfg w accounts (Inr req)))
   \<and> (\<forall>account_user.
        accounts (RequestBody.Address req) = Some account_user
        \<and> IsHexAddress (RequestBody.Address req)
        \<and> LastWithdrawTime account_user \<le> Since_Now w \<longrightarrow>
        (cooldown_rejected (handleWithdraw cfg w accounts (Inr req))
           \<longleftrightarrow> Since_Now w - LastWithdrawTime account_user < sint (cooldown_duration cfg))
        \<and> (outcome (handleWithdraw cfg w accounts (Inr req))
              = outcome (handleWithdraw cfg w (accounts(RequestBody.Address req := None)) (Inr req))
            \<and> trace (handleWithdraw cfg w accounts (Inr req))
              = trace (handleWithdraw cfg w (accounts(RequestBody.Address req := None)) (Inr req))
           \<longleftrightarrow> sint (cooldown_duration cfg) \<le> Since_Now w - LastWithdrawTime account_user))
   \<and> (- 2562047 \<le> sint (integerDefault cfg) \<and> sint (integerDefault cfg) \<le> 2562047 \<longrightarrow>
        sint (cooldown_duration cfg) = sint (integerDefault cfg) * 3600000000000)"
proof (intro conjI allI impI)
  assume "- 2562047 \<le> sint (integerDefault cfg) \<and> sint (integerDefault cfg) \<le> 2562047"
  then show "sint (cooldown_duration cfg) = sint (integerDefault cfg) * 3600000000000"
    by (simp add: cooldown_duration_hours)
next
  assume "accounts (RequestBody.Address req) = None"
  then have "\<not> in_cooldown cfg w accounts (RequestBody.Address req)"
    by (simp add: in_cooldown_def)
  then show "\<not> cooldown_rejected (handleWithdraw cfg w accounts (Inr req))"
    by (rule not_cooldown_rejected)
next
  fix account_user
  assume a: "accounts (RequestBody.Address req) = Some account_user
        \<and> IsHexAddress (RequestBody.Address req)
        \<and> LastWithdrawTime account_user \<le> Since_Now w"
  then have ic: "in_cooldown cfg w accounts (RequestBody.Address req)
        \<longleftrightarrow> Since_Now w - LastWithdrawTime account_user < sint (cooldown_duration cfg)"
    by (simp add: in_cooldown_def Sub_less_iff)
  from a show rej: "cooldown_rejected (handleWithdraw cfg w accounts (Inr req))
           \<longleftrightarrow> Since_Now w - LastWithdrawTime account_user < sint (cooldown_duration cfg)"
    by (simp add: cooldown_rejected_iff ic)
  have free: "\<not> in_cooldown cfg w (accounts(RequestBody.Address req := None))
                 (RequestBody.Address req)"
    by (simp add: in_cooldown_def)
  show "(outcome (handleWithdraw cfg w accounts (Inr req))
              = outcome (handleWithdraw cfg w (accounts(RequestBody.Address req := None)) (Inr req))
            \<and> trace (handleWithdraw cfg w accounts (Inr req))
              = trace (handleWithdraw cfg w (accounts(RequestBody.Address req := None)) (Inr req)))
           \<longleftrightarrow> sint (cooldown_duration cfg) \<le> Since_Now w - LastWithdrawTime account_user"
  proof
    assume eq: "outcome (handleWithdraw cfg w accounts (Inr req))
              = outcome (handleWithdraw cfg w (accounts(RequestBody.Address req := None)) (Inr req))
            \<and> trace (handleWithdraw cfg w accounts (Inr req))
              = trace (handleWithdraw cfg w (accounts(RequestBody.Address req := None)) (Inr req))"
    from free have "\<not> cooldown_rejected
        (handleWithdraw cfg w (accounts(RequestBody.Address req := None)) (Inr req))"
      by (rule not_cooldown_rejected)
    with eq have "\<not> cooldown_rejected (handleWithdraw cfg w accounts (Inr req))"
      by (simp add: cooldown_rejected_def)
    with rej show "sint (cooldown_duration cfg) \<le> Since_Now w - LastWithdrawTime account_user"
      by simp
  next
    assume "sint (cooldown_duration cfg) \<le> Since_Now w - LastWithdrawTime account_user"
    with ic have "\<not> in_cooldown cfg w accounts (RequestBody.Address req)"
      by simp
    from handleWithdraw_not_in_cooldown [OF this free]
    show "outcome (handleWithdraw cfg w accounts (Inr req))
              = outcome (handleWithdraw cfg w (accounts(RequestBody.Address req := None)) (Inr req))
            \<and> trace (handleWithdraw cfg w accounts (Inr req))
              = trace (handleWithdraw cfg w (accounts(RequestBody.Address req := None)) (Inr req))" .
  qed
qed

text \<open>
  The theorem at work: a first request; a request one hour after the record, under a
  cooldown of 24 hours; and a request 100 hours after it.
\<close>

theorem cooldown_eligibility_witness:
  "\<not> cooldown_rejected
       (handleWithdraw example_config example_world Map.empty (Inr example_request))
   \<and> example_ledger example_address
       = Some \<lparr>Account.Address = example_address, LastWithdrawTime = 356400000000000\<rparr>
   \<and> IsHexAddress example_address
   \<and> (356400000000000 :: int) \<le> Since_Now example_world
   \<and> Since_Now example_world - 356400000000000 < sint (cooldown_duration example_config)
   \<and> cooldown_rejected
       (handleWithdraw example_config example_world example_ledger (Inr example_request))
   \<and> sint (cooldown_duration example_config) \<le> Since_Now example_world - 0
   \<and> sint (cooldown_duration example_config) = 24 * 3600000000000
   \<and> outcome (handleWithdraw example_config example_world example_old_ledger
                (Inr example_request))
       = outcome (handleWithdraw example_config example_world
                   (example_old_ledger(example_address := None)) (Inr example_request))"
proof -
  have addr: "RequestBody.Address example_request = example_address"
    by (simp add: example_request_def)
  have l: "example_ledger example_address
       = Some \<lparr>Account.Address = example_address, LastWithdrawTime = 356400000000000\<rparr>"
    by (simp add: example_ledger_def)
  have ol: "example_old_ledger example_address
       = Some \<lparr>Account.Address = example_address, LastWithdrawTime = 0\<rparr>"
    by (simp add: example_old_ledger_def)
  have t: "(356400000000000 :: int) \<le> Since_Now example_world"
        "(0 :: int) \<le> Since_Now example_world"
    by (simp_all add: example_world_def)
  have d: "Since_Now example_world - 356400000000000 < sint (cooldown_duration example_config)"
         "sint (cooldown_duration example_config) \<le> Since_Now example_world - 0"
    by (simp_all add: example_world_def example_config_def cooldown_duration_def Hour_def)
  from cooldown_eligibility [of Map.empty example_request example_config example_world]
  have first: "\<not> cooldown_rejected
       (handleWithdraw example_config example_world Map.empty (Inr example_request))"
    by simp
  from cooldown_eligibility [of example_ledger example_request example_config example_world]
    l t d example_valid
  have early: "cooldown_rejected
       (handleWithdraw example_config example_world example_ledger (Inr example_request))"
    by (simp add: addr)
  from cooldown_eligibility [of example_old_ledger example_request example_config example_world]
    ol t d example_valid
  have late: "outcome (handleWithdraw example_config example_world example_old_ledger
                (Inr example_request))
       = outcome (handleWithdraw example_config example_world
                   (example_old_ledger(example_address := None)) (Inr example_request))"
    by (simp add: addr)
  from cooldown_eligibility [of Map.empty example_request example_config example_world]
  have hours: "sint (cooldown_duration example_config) = 24 * 3600000000000"
    by (simp add: example_config_def)
  from first l example_valid t d early late hours show ?thesis
    by simp
qed

text \<open>
  C5. The specification puts the configured interval into the message of the cooldown
  rejection. The handler answers status 403 and \<^verbatim>\<open>success: false\<close>, but its message is a
  fixed text that names 24 hours: under a configured interval of 12 hours, a request one
  hour after the record is told "once every 24 hours".
\<close>

theorem cooldown_message_run:
  "handleWithdraw (example_config\<lparr>integerDefault := 12\<rparr>) example_world example_ledger
      (Inr example_request) =
     \<lparr>outcome = JSON 403 (ApiResponse False ''You can only withdraw once every 24 hours.''),
      ledger = example_ledger, trace = []\<rparr>"
proof -
  have "in_cooldown (example_config\<lparr>integerDefault := 12\<rparr>) example_world example_ledger
          example_address"
    by (simp add: in_cooldown_def example_ledger_def example_config_def example_world_def
        cooldown_duration_def Hour_def Sub_def)
  then show ?thesis
    by (simp add: handleWithdraw_def stop_def example_valid example_request_def)
qed

text \<open>Whatever the configuration, that is the answer of every cooldown rejection.\<close>

lemma cooldown_message_fixed:
  "IsHexAddress (RequestBody.Address req) \<Longrightarrow>
   in_cooldown cfg w accounts (RequestBody.Address req) \<Longrightarrow>
   handleWithdraw cfg w accounts (Inr req) =
     \<lparr>outcome = JSON 403 (ApiResponse False ''You can only withdraw once every 24 hours.''),
      ledger = accounts, trace = []\<rparr>"
  by (simp add: handleWithdraw_def stop_def)

subsection \<open>An amount that does not parse\<close>


text \<open>With the amount \<^verbatim>\<open>nan\<close> the handler panics in the conversion, before any call.\<close>

lemma nan_amount_panics:
  "handleWithdraw example_config example_world Map.empty
       (Inr \<lparr>Network = ''rpc.sepolia.mantle.xyz'', Address = example_address,
             Amount = ''nan''\<rparr>) =
     \<lparr>outcome = Panic, ledger = Map.empty, trace = []\<rparr>"
  by (simp add: handleWithdraw_def stop_def example_valid not_in_cooldown_empty
      amount_to_wei_nan example_world_def)



subsection \<open>The balance check\<close>

text \<open>
  C2. When the handler reads the operator's balance and the balance is strictly less than
  the integer amount requested, it answers status 400 with the message "Insufficient
  balance"; the balance read is the last call on the client before it is closed, so no
  nonce is fetched, no gas is estimated, and nothing is signed or broadcast. The map is
  as before.
\<close>

theorem insufficient_balance_rejected:
  assumes "amount_to_wei (ParseFloat_other w) (Amount req) = IntAmount n"
      and "CallBalanceAt a \<in> set (trace (handleWithdraw cfg w accounts (Inr req)))"
      and "fst (BalanceAt w a) = Some b"
      and "b < n"
  shows "handleWithdraw cfg w accounts (Inr req) =
           \<lparr>outcome = JSON 400 (ApiResponse False ''Insufficient balance''),
            ledger = accounts,
            trace = [CallDialContext (''https://'' @ Network req), CallBalanceAt a,
                     LogError ''Insufficient balance'', CallClose]\<rparr>
         \<and> (\<forall>e \<in> set (trace (handleWithdraw cfg w accounts (Inr req))).
               \<not> signs_or_broadcasts e)"
  using assms
  by (auto simp: handler_defs split: handler_splits)

theorem insufficient_balance_rejected_witness:
  "amount_to_wei
       (ParseFloat_other (example_world\<lparr>BalanceAt := (\<lambda>a. (Some 1000000000000000000, None))\<rparr>))
       (Amount example_request) = IntAmount 1500000000000000000
   \<and> fst (BalanceAt (example_world\<lparr>BalanceAt := (\<lambda>a. (Some 1000000000000000000, None))\<rparr>) 3)
       = Some 1000000000000000000
   \<and> (1000000000000000000 :: int) < 1500000000000000000
   \<and> handleWithdraw example_config
        (example_world\<lparr>BalanceAt := (\<lambda>a. (Some 1000000000000000000, None))\<rparr>)
        Map.empty (Inr example_request) =
       \<lparr>outcome = JSON 400 (ApiResponse False ''Insufficient balance''),
        ledger = Map.empty,
        trace = [CallDialContext (''https://'' @ Network example_request), CallBalanceAt 3,
                 LogError ''Insufficient balance'', CallClose]\<rparr>"
proof -
  have amt: "amount_to_wei
       (ParseFloat_other (example_world\<lparr>BalanceAt := (\<lambda>a. (Some 1000000000000000000, None))\<rparr>))
       (Amount example_request) = IntAmount 1500000000000000000"
    by (simp add: example_request_def amount_to_wei_1_5)
  have reached: "CallBalanceAt 3 \<in> set (trace (handleWithdraw example_config
        (example_world\<lparr>BalanceAt := (\<lambda>a. (Some 1000000000000000000, None))\<rparr>)
        Map.empty (Inr example_request)))"
    by (simp add: example_poor_run)
  from insufficient_balance_rejected [OF amt reached, of 1000000000000000000] amt
  show ?thesis by simp
qed

lemma in_cooldown_drop_balance_error:
  "in_cooldown cfg (drop_balance_error w) accounts addr = in_cooldown cfg w accounts addr"
  by (simp add: in_cooldown_def drop_balance_error_def cong: option.case_cong)

lemma withdraw_connected_drop_balance_error:
  "withdraw_connected cfg (drop_balance_error w) accounts req n
     = withdraw_connected cfg w accounts req n"
  by (simp add: withdraw_connected_def drop_balance_error_def
      cong: sum.case_cong option.case_cong if_cong)

lemma handleWithdraw_drop_balance_error:
  "handleWithdraw cfg (drop_balance_error w) accounts bind = handleWithdraw cfg w accounts bind"
proof -
  have sel: "ParseFloat_other (drop_balance_error w) = ParseFloat_other w"
    "DialContext (drop_balance_error w) = DialContext w"
    by (simp_all add: drop_balance_error_def)
  show ?thesis
    by (simp add: handleWithdraw_def in_cooldown_drop_balance_error
        withdraw_connected_drop_balance_error sel
        cong: sum.case_cong option.case_cong amount_result.case_cong if_cong)
qed

text \<open>
  C10. The error of the balance read is dropped: the handler does the same in a world
  where every balance read reports no error. When the read reports an error, the handler
  never answers with the connection failure; it goes on to compare what the read
  returned with the amount. If that is nil the comparison dereferences it and the handler
  panics; otherwise a balance below the amount gives "Insufficient balance", and any other
  balance lets the handler go on to the nonce.
\<close>

theorem balance_error_discarded:
  "handleWithdraw cfg (drop_balance_error w) accounts (Inr req)
     = handleWithdraw cfg w accounts (Inr req)
   \<and> (\<forall>a bal e n.
        CallBalanceAt a \<in> set (trace (handleWithdraw cfg w accounts (Inr req)))
        \<and> BalanceAt w a = (bal, Some e)
        \<and> amount_to_wei (ParseFloat_other w) (Amount req) = IntAmount n \<longrightarrow>
        outcome (handleWithdraw cfg w accounts (Inr req))
          \<noteq> JSON 500 (ApiResponse False ''Failed to connect to Mantle client'')
        \<and> (case bal of
              None \<Rightarrow>
                handleWithdraw cfg w accounts (Inr req) =
                  \<lparr>outcome = Panic, ledger = accounts,
                   trace = [CallDialContext (''https://'' @ Network req), CallBalanceAt a,
                            CallClose]\<rparr>
            | Some balance \<Rightarrow>
                if balance < n
                then outcome (handleWithdraw cfg w accounts (Inr req))
                       = JSON 400 (ApiResponse False ''Insufficient balance'')
                else CallPendingNonceAt a
                       \<in> set (trace (handleWithdraw cfg w accounts (Inr req)))))"
proof (intro conjI allI impI)
  show "handleWithdraw cfg (drop_balance_error w) accounts (Inr req)
          = handleWithdraw cfg w accounts (Inr req)"
    by (rule handleWithdraw_drop_balance_error)
next
  fix a bal e n
  assume "CallBalanceAt a \<in> set (trace (handleWithdraw cfg w accounts (Inr req)))
        \<and> BalanceAt w a = (bal, Some e)
        \<and> amount_to_wei (ParseFloat_other w) (Amount req) = IntAmount n"
  then show "outcome (handleWithdraw cfg w accounts (Inr req))
          \<noteq> JSON 500 (ApiResponse False ''Failed to connect to Mantle client'')"
    by (auto simp: handler_defs split: handler_splits)
next
  fix a bal e n
  assume "CallBalanceAt a \<in> set (trace (handleWithdraw cfg w accounts (Inr req)))
        \<and> BalanceAt w a = (bal, Some e)
        \<and> amount_to_wei (ParseFloat_other w) (Amount req) = IntAmount n"
  then show "case bal of
              None \<Rightarrow>
                handleWithdraw cfg w accounts (Inr req) =
                  \<lparr>outcome = Panic, ledger = accounts,
                   trace = [CallDialContext (''https://'' @ Network req), CallBalanceAt a,
                            CallClose]\<rparr>
            | Some balance \<Rightarrow>
                if balance < n
                then outcome (handleWithdraw cfg w accounts (Inr req))
                       = JSON 400 (ApiResponse False ''Insufficient balance'')
                else CallPendingNonceAt a
                       \<in> set (trace (handleWithdraw cfg w accounts (Inr req)))"
    by (auto simp: handler_defs split: handler_splits)
qed

theorem balance_error_discarded_witness:
  "CallBalanceAt 3 \<in> set (trace (handleWithdraw example_config
        (example_world\<lparr>BalanceAt := (\<lambda>a. (None, Some ''connection reset''))\<rparr>)
        Map.empty (Inr example_request)))
   \<and> BalanceAt (example_world\<lparr>BalanceAt := (\<lambda>a. (None, Some ''connection reset''))\<rparr>) 3
       = (None, Some ''connection reset'')
   \<and> amount_to_wei
       (ParseFloat_other (example_world\<lparr>BalanceAt := (\<lambda>a. (None, Some ''connection reset''))\<rparr>))
       (Amount example_request) = IntAmount 1500000000000000000
   \<and> outcome (handleWithdraw example_config
        (example_world\<lparr>BalanceAt := (\<lambda>a. (None, Some ''connection reset''))\<rparr>)
        Map.empty (Inr example_request))
       \<noteq> JSON 500 (ApiResponse False ''Failed to connect to Mantle client'')
   \<and> handleWithdraw example_config
        (example_world\<lparr>BalanceAt := (\<lambda>a. (None, Some ''connection reset''))\<rparr>)
        Map.empty (Inr example_request) =
       \<lparr>outcome = Panic, ledger = Map.empty,
        trace = [CallDialContext (''https://'' @ Network example_request), CallBalanceAt 3,
                 CallClose]\<rparr>"
proof -
  have reached: "CallBalanceAt 3 \<in> set (trace (handleWithdraw example_config
        (example_world\<lparr>BalanceAt := (\<lambda>a. (None, Some ''connection reset''))\<rparr>)
        Map.empty (Inr example_request)))"
    by (simp add: example_nil_balance_run)
  have amt: "amount_to_wei
       (ParseFloat_other (example_world\<lparr>BalanceAt := (\<lambda>a. (None, Some ''connection reset''))\<rparr>))
       (Amount example_request) = IntAmount 1500000000000000000"
    by (simp add: example_request_def amount_to_wei_1_5)
  have read: "BalanceAt (example_world\<lparr>BalanceAt := (\<lambda>a. (None, Some ''connection reset''))\<rparr>) 3
       = (None, Some ''connection reset'')"
    by simp
  from balance_error_discarded
    [of example_config
        "example_world\<lparr>BalanceAt := (\<lambda>a. (None, Some ''connection reset''))\<rparr>"
        Map.empty example_request]
  have "outcome (handleWithdraw example_config
        (example_world\<lparr>BalanceAt := (\<lambda>a. (None, Some ''connection reset''))\<rparr>)
        Map.empty (Inr example_request))
       \<noteq> JSON 500 (ApiResponse False ''Failed to connect to Mantle client'')
   \<and> handleWithdraw example_config
        (example_world\<lparr>BalanceAt := (\<lambda>a. (None, Some ''connection reset''))\<rparr>)
        Map.empty (Inr example_request) =
       \<lparr>outcome = Panic, ledger = Map.empty,
        trace = [CallDialContext (''https://'' @ Network example_request), CallBalanceAt 3,
                 CallClose]\<rparr>"
    using reached amt read by fastforce
  with reached amt read show ?thesis by simp
qed

subsection \<open>The pipeline\<close>

text \<open>
  Each of these steps, when it fails, ends the request with status 500 and its own
  message, directly after the failed call (the deferred \<^verbatim>\<open>Close\<close> apart), with the map as
  before.
\<close>

lemma stage_failures:
  fixes cfg w accounts bind
  defines "r \<equiv> handleWithdraw cfg w accounts bind"
  shows "CallDialContext url \<in> set (trace r) \<Longrightarrow> DialContext w url = Some e \<Longrightarrow>
           r = \<lparr>outcome = JSON 500 (ApiResponse False ''Failed to connect to Mantle client''),
                ledger = accounts,
                trace = [CallDialContext url, LogError ''Failed to connect to Mantle client'']\<rparr>"
    and "CallPendingNonceAt a \<in> set (trace r) \<Longrightarrow> PendingNonceAt w a = Inl e \<Longrightarrow>
           outcome r = JSON 500 (ApiResponse False ''Failed to get nonce'') \<and> ledger r = accounts
           \<and> (\<exists>u. trace r = [CallDialContext u, CallBalanceAt a, CallPendingNonceAt a,
                               LogError ''Failed to get nonce'', CallClose])"
    and "CallSuggestGasPrice \<in> set (trace r) \<Longrightarrow> SuggestGasPrice w = Inl e \<Longrightarrow>
           outcome r = JSON 500 (ApiResponse False ''Failed to get gas price'')
           \<and> ledger r = accounts
           \<and> (\<exists>u a. trace r = [CallDialContext u, CallBalanceAt a, CallPendingNonceAt a,
                                 CallSuggestGasPrice, LogError ''Failed to get gas price'',
                                 CallClose])"
    and "CallSuggestGasTipCap \<in> set (trace r) \<Longrightarrow> SuggestGasTipCap w = Inl e \<Longrightarrow>
           outcome r = JSON 500 (ApiResponse False ''Failed to get gas tip cap'')
           \<and> ledger r = accounts
           \<and> (\<exists>u a. trace r = [CallDialContext u, CallBalanceAt a, CallPendingNonceAt a,
                                 CallSuggestGasPrice, CallSuggestGasTipCap,
                                 LogError ''Failed to get gas tip cap'', CallClose])"
    and "CallNetworkID \<in> set (trace r) \<Longrightarrow> NetworkID w = Inl e \<Longrightarrow>
           outcome r = JSON 500 (ApiResponse False ''Failed to get network ID'')
           \<and> ledger r = accounts
           \<and> (\<exists>u a. trace r = [CallDialContext u, CallBalanceAt a, CallPendingNonceAt a,
                                 CallSuggestGasPrice, CallSuggestGasTipCap, CallNetworkID,
                                 LogError ''Failed to get network ID'', CallClose])"
    and "CallEstimateGas msg \<in> set (trace r) \<Longrightarrow> EstimateGas w msg = Inl e \<Longrightarrow>
           outcome r = JSON 500 (ApiResponse False ''Failed to estimate gas'')
           \<and> ledger r = accounts
           \<and> (\<exists>u a. trace r = [CallDialContext u, CallBalanceAt a, CallPendingNonceAt a,
                                 CallSuggestGasPrice, CallSuggestGasTipCap, CallNetworkID,
                                 CallEstimateGas msg, LogError ''Failed to estimate gas'',
                                 CallClose])"
    and "CallSendTransaction (Some signedTx) \<in> set (trace r) \<Longrightarrow>
         SendTransaction w signedTx = Some e \<Longrightarrow>
           outcome r = JSON 500 (ApiResponse False ''Deal failed'') \<and> ledger r = accounts
           \<and> (\<exists>u a msg tx. trace r = [CallDialContext u, CallBalanceAt a, CallPendingNonceAt a,
                                 CallSuggestGasPrice, CallSuggestGasTipCap, CallNetworkID,
                                 CallEstimateGas msg, CallSignTx tx,
                                 CallSendTransaction (Some signedTx), LogError e, CallClose])"
  unfolding r_def
  by (auto simp: handler_defs split: handler_splits)

text \<open>
  Signing is the exception. Its error is overwritten, so whenever signing fails the
  handler still calls \<^verbatim>\<open>SendTransaction\<close>, on the nil transaction, and panics there.
\<close>

lemma signing_failure:
  fixes cfg w accounts bind
  defines "r \<equiv> handleWithdraw cfg w accounts bind"
  assumes "CallSignTx (DynamicFeeTx chainID nonce gasFeeCap gasTipCap gasLimit toAddress v d)
             \<in> set (trace r)"
      and "HexToECDSA w (privateKeyDefault cfg) = Inr privateKey"
      and "SignTx w (DynamicFeeTx chainID nonce gasFeeCap gasTipCap gasLimit toAddress v d)
             chainID privateKey = Inl e"
  shows "outcome r = Panic \<and> ledger r = accounts \<and> CallSendTransaction None \<in> set (trace r)"
  using assms unfolding r_def
  by (auto simp: handler_defs split: handler_splits)

text \<open>
  C4. The specification has every failing step, signing included, abort the remaining
  steps with status 500 and a message of its own. In the example world with a signer that
  fails, the handler does not stop at the signing: it goes on to \<^verbatim>\<open>SendTransaction\<close> with
  the nil transaction and panics, without any answer of its own.
\<close>

theorem signing_failure_run:
  "handleWithdraw example_config
      (example_world\<lparr>SignTx := (\<lambda>tx chainID key. Inl ''invalid chain id for signer'')\<rparr>)
      Map.empty (Inr example_request) =
     \<lparr>outcome = Panic, ledger = Map.empty,
      trace = [CallDialContext ''https://rpc.sepolia.mantle.xyz'', CallBalanceAt 3,
               CallPendingNonceAt 3, CallSuggestGasPrice, CallSuggestGasTipCap, CallNetworkID,
               CallEstimateGas example_msg, CallSignTx example_tx,
               CallSendTransaction None, CallClose]\<rparr>"
  by (simp add: handler_defs example_valid not_in_cooldown_empty amount_to_wei_1_5 example_defs)

subsection \<open>The map and the success answer\<close>

text \<open>
  C3. The map changes only on success. Whenever the handler does not answer with the
  success body (whatever made it stop), the map afterwards is the map before. Whenever it
  does, the map afterwards is the map before with the entry of the requested address set
  (created or replaced, every other entry untouched) to that address and the clock read
  at that moment.
\<close>

theorem ledger_written_only_on_success:
  "(\<not> succeeded (handleWithdraw cfg w accounts bind) \<longrightarrow>
      ledger (handleWithdraw cfg w accounts bind) = accounts)
   \<and> (succeeded (handleWithdraw cfg w accounts bind) \<longrightarrow>
      (\<exists>req. bind = Inr req \<and>
         ledger (handleWithdraw cfg w accounts bind) =
           accounts(RequestBody.Address req \<mapsto>
             \<lparr>Account.Address = RequestBody.Address req, LastWithdrawTime = Record_Now w\<rparr>)))"
  by (auto simp: handler_defs succeeded_def split: handler_splits)

theorem ledger_written_only_on_success_witness:
  "\<not> succeeded (handleWithdraw example_config example_world example_ledger (Inr example_request))
   \<and> ledger (handleWithdraw example_config example_world example_ledger (Inr example_request))
       = example_ledger
   \<and> succeeded (handleWithdraw example_config example_world example_old_ledger
                  (Inr example_request))
   \<and> ledger (handleWithdraw example_config example_world example_old_ledger
               (Inr example_request))
       = example_old_ledger(example_address \<mapsto>
           \<lparr>Account.Address = example_address, LastWithdrawTime = Record_Now example_world\<rparr>)"
proof -
  have no: "\<not> succeeded
      (handleWithdraw example_config example_world example_ledger (Inr example_request))"
    by (simp add: example_cooldown_run succeeded_def)
  have yes: "succeeded
      (handleWithdraw example_config example_world example_old_ledger (Inr example_request))"
    by (simp add: example_old_run succeeded_def)
  from ledger_written_only_on_success
    [of example_config example_world example_ledger "Inr example_request"] no
  have unchanged: "ledger (handleWithdraw example_config example_world example_ledger
      (Inr example_request)) = example_ledger"
    by simp
  from ledger_written_only_on_success
    [of example_config example_world example_old_ledger "Inr example_request"] yes
  have "ledger (handleWithdraw example_config example_world example_old_ledger
               (Inr example_request))
       = example_old_ledger(example_address \<mapsto>
           \<lparr>Account.Address = example_address, LastWithdrawTime = Record_Now example_world\<rparr>)"
    by (simp add: example_request_def)
  with no yes unchanged show ?thesis by simp
qed

text \<open>
  C9. When a transaction has been handed to \<^verbatim>\<open>SendTransaction\<close> and the broadcast reports
  no error, the answer is status 200 with \<^verbatim>\<open>success: true\<close>, \<^verbatim>\<open>tx_id\<close> the hex string of that
  transaction's hash, and \<^verbatim>\<open>explorer_url\<close> the configured base followed by the same string.
  Conversely every success answer is of this form, for a transaction that was broadcast
  without error.
\<close>

theorem success_response:
  "(CallSendTransaction (Some signedTx) \<in> set (trace (handleWithdraw cfg w accounts bind))
      \<and> SendTransaction w signedTx = None \<longrightarrow>
    outcome (handleWithdraw cfg w accounts bind) =
      JSON 200 (H True (Hash_Hex (Hash signedTx))
                  (explorerUrlDefault cfg @ Hash_Hex (Hash signedTx))))
   \<and> (succeeded (handleWithdraw cfg w accounts bind) \<longrightarrow>
      (\<exists>tx. CallSendTransaction (Some tx) \<in> set (trace (handleWithdraw cfg w accounts bind))
          \<and> SendTransaction w tx = None
          \<and> outcome (handleWithdraw cfg w accounts bind) =
              JSON 200 (H True (Hash_Hex (Hash tx))
                          (explorerUrlDefault cfg @ Hash_Hex (Hash tx)))))"
  by (auto simp: handler_defs succeeded_def split: handler_splits)

theorem success_response_witness:
  "CallSendTransaction (Some (Transaction example_tx 11))
       \<in> set (trace (handleWithdraw example_config example_world Map.empty (Inr example_request)))
   \<and> SendTransaction example_world (Transaction example_tx 11) = None
   \<and> outcome (handleWithdraw example_config example_world Map.empty (Inr example_request)) =
       JSON 200 (H True ''0x000000000000000000000000000000000000000000000000000000000000000b''
         (''https://explorer.sepolia.mantle.xyz/tx/''
          @ ''0x000000000000000000000000000000000000000000000000000000000000000b''))"
proof -
  have sent: "CallSendTransaction (Some (Transaction example_tx 11))
       \<in> set (trace (handleWithdraw example_config example_world Map.empty (Inr example_request)))"
    by (simp add: example_run)
  have ok: "SendTransaction example_world (Transaction example_tx 11) = None"
    by (simp add: example_world_def)
  from success_response
    [of "Transaction example_tx 11" example_config example_world Map.empty "Inr example_request"]
    sent ok
  have "outcome (handleWithdraw example_config example_world Map.empty (Inr example_request)) =
       JSON 200 (H True (Hash_Hex 11) (explorerUrlDefault example_config @ Hash_Hex 11))"
    by simp
  with sent ok show ?thesis
    by (simp add: Hash_Hex_11 example_config_def)
qed

end
